theory Spec2Isabelle
  imports Complex_Main "HOL-Library.Sublist" "HOL-Library.AList"
begin

section \<open>Python values and string operations used by the planner\<close>

text \<open>
  The planner is one Streamlit script, \<^verbatim>\<open>main.py\<close>. A Python \<^verbatim>\<open>str\<close> is modelled as a
  \<^typ>\<open>string\<close> whose characters are the code points below 256; a value decoded from JSON
  is a \<open>json\<close> tree, with a dictionary as an association list in insertion order.
  Numbers are exact: \<open>JInt\<close> is a Python \<^verbatim>\<open>int\<close> and \<open>JFloat\<close> carries the value of a
  Python \<^verbatim>\<open>float\<close>; the rounding of doubles is not part of the model.
\<close>

datatype py_error =
    KeyError | TypeError | ValueError | IndexError | ZeroDivisionError | AttributeError
  | JSONDecodeError | StreamlitAPIException | ClientError | UnboundLocalError

datatype json =
    JNull
  | JBool bool
  | JInt int
  | JFloat rat
  | JString string
  | JArray "json list"
  | JObject "(string \<times> json) list"

definition and_then :: "'e + 'a \<Rightarrow> ('a \<Rightarrow> 'e + 'b) \<Rightarrow> 'e + 'b" where
  "and_then m f = (case m of Inl e \<Rightarrow> Inl e | Inr x \<Rightarrow> f x)"

text \<open>\<^verbatim>\<open>str.isspace\<close> on the code points below 256.\<close>

definition py_isspace :: "char \<Rightarrow> bool" where
  "py_isspace c = ((of_char c :: nat) \<in> set [9, 10, 11, 12, 13, 28, 29, 30, 31, 32, 133, 160])"

text \<open>\<^verbatim>\<open>s.strip()\<close>\<close>

definition py_strip :: "string \<Rightarrow> string" where
  "py_strip s = rev (dropWhile py_isspace (rev (dropWhile py_isspace s)))"

text \<open>\<^verbatim>\<open>sub in s\<close>\<close>

fun py_in :: "string \<Rightarrow> string \<Rightarrow> bool" where
  "py_in sub [] = (sub = [])"
| "py_in sub (c # cs) = (prefix sub (c # cs) \<or> py_in sub cs)"

text \<open>
  \<^verbatim>\<open>s.split(sep)\<close> scans from the left and cuts at every occurrence of \<open>sep\<close> that does not
  overlap the one before. Python raises \<^verbatim>\<open>ValueError\<close> for an empty separator; the script
  only passes the two fence literals.
\<close>

fun split_from :: "string \<Rightarrow> string \<Rightarrow> string \<Rightarrow> string list" where
  "split_from sep acc [] = [rev acc]"
| "split_from sep acc (c # cs) =
     (if sep \<noteq> [] \<and> prefix sep (c # cs)
      then rev acc # split_from sep [] (drop (length sep) (c # cs))
      else split_from sep (c # acc) cs)"

definition py_split :: "string \<Rightarrow> string \<Rightarrow> string list" where
  "py_split s sep = split_from sep [] s"

text \<open>\<^verbatim>\<open>xs[i]\<close> for \<open>i \<ge> 0\<close>\<close>

definition py_index :: "'a list \<Rightarrow> nat \<Rightarrow> py_error + 'a" where
  "py_index xs i = (if i < length xs then Inr (xs ! i) else Inl IndexError)"

text \<open>\<^verbatim>\<open>sep.join(xs)\<close>\<close>

fun py_join :: "string \<Rightarrow> string list \<Rightarrow> string" where
  "py_join sep [] = []"
| "py_join sep [x] = x"
| "py_join sep (x # y # ys) = x @ sep @ py_join sep (y # ys)"

text \<open>\<^verbatim>\<open>str(n)\<close> for an \<^verbatim>\<open>int\<close>\<close>

fun digits :: "nat \<Rightarrow> string" where
  "digits n = (if n < 10 then [''0123456789'' ! n]
               else digits (n div 10) @ [''0123456789'' ! (n mod 10)])"

declare digits.simps [simp del]

definition py_str_int :: "int \<Rightarrow> string" where
  "py_str_int i = (if i < 0 then CHR ''-'' # digits (nat (- i)) else digits (nat i))"

text \<open>Truth value of a decoded value, as \<^verbatim>\<open>if itinerary:\<close> tests it.\<close>

fun py_bool :: "json \<Rightarrow> bool" where
  "py_bool JNull = False"
| "py_bool (JBool b) = b"
| "py_bool (JInt i) = (i \<noteq> 0)"
| "py_bool (JFloat r) = (r \<noteq> 0)"
| "py_bool (JString s) = (s \<noteq> [])"
| "py_bool (JArray xs) = (xs \<noteq> [])"
| "py_bool (JObject kvs) = (kvs \<noteq> [])"

text \<open>
  \<^verbatim>\<open>d[k] = v\<close>: a dictionary keeps the position of a key it already has and appends a new
  one; every other decoded value raises \<^verbatim>\<open>TypeError\<close>.
\<close>

fun py_setitem :: "json \<Rightarrow> string \<Rightarrow> json \<Rightarrow> py_error + json" where
  "py_setitem (JObject kvs) k v = Inr (JObject (AList.update k v kvs))"
| "py_setitem _ k v = Inl TypeError"

section \<open>The collaborators outside the script\<close>

text \<open>
  The Gemini client and the \<^verbatim>\<open>json\<close> module are libraries. They enter the model as
  parameters, so every theorem holds whatever they compute.
\<close>

record externals =
  configure :: "string \<Rightarrow> bool"
  generate_content :: "string \<Rightarrow> py_error + string"
  json_loads :: "string \<Rightarrow> py_error + json"
  json_dumps :: "json \<Rightarrow> string"
  py_repr :: "json \<Rightarrow> string"

text \<open>
  \<open>configure ext k\<close> tells whether \<^verbatim>\<open>genai.configure(api_key=k)\<close> returns without raising;
  \<open>generate_content ext p\<close> is \<^verbatim>\<open>GenerativeModel('gemini-pro').generate_content(p).text\<close>
  or the exception on the way; \<open>json_loads ext\<close> is \<^verbatim>\<open>json.loads\<close>, \<open>json_dumps ext\<close> is
  \<^verbatim>\<open>json.dumps(_, indent=2)\<close>, and \<open>py_repr ext\<close> is \<^verbatim>\<open>str\<close> on floats, lists and
  dictionaries.
\<close>

section \<open>Form, session and what a run shows\<close>

record trip_form =
  destination :: string
  num_days :: int
  num_people :: int
  budget :: string
  interests :: "string list"
  group_type :: string
  pace :: string
  accommodation :: string

text \<open>
  What outlives a run: the process environment variable \<^verbatim>\<open>GOOGLE_API_KEY\<close> and the two
  keys of \<^verbatim>\<open>st.session_state\<close>.
\<close>

record state =
  environ_key :: "string option"
  api_key :: "string option"
  itinerary :: "json option"

datatype status = Complete | Failed

datatype failure = ParseFailure string | AIError py_error

datatype metric = TotalCost | PerPerson

datatype listing = Attractions | Cuisine | Tips | Packing

text \<open>
  A run shows a sequence of elements. Each element keeps the values the script
  interpolates into it; the fixed markup around them is left out. \<open>Amount q\<close> stands for a
  number formatted with \<^verbatim>\<open>.0f\<close>, and \<open>MealCard\<close> keeps the meal name that the script
  shows title-cased. \<open>GenerationError\<close> is the message of a failed generation with its
  debug text; \<open>ParseErrorMessage\<close> is the message of line 155 alone.
\<close>

datatype node =
    ApiConfigError
  | ApiKeyPanel bool
  | KeySaved
  | GenerateButton bool
  | ConfigureWarning
  | ErrorDestination
  | ErrorInterests
  | GenerationError failure
  | ParseErrorMessage
  | GenerationStatus status
  | Balloons
  | Welcome bool
  | Title json
  | Overview json
  | Metric metric rat
  | DurationMetric int
  | ActivitiesMetric nat
  | DayHeading json json
  | DayBudget rat
  | ActivityItem json json json json json
  | DiningColumns nat
  | MealCard nat string json json json
  | DayTip json
  | ListEntry listing nat json
  | DownloadJson string string
  | DownloadTxt string string
  | NewButton

section \<open>Credential resolution\<close>

text \<open>\<^verbatim>\<open>os.getenv("GOOGLE_API_KEY") or st.session_state.get("api_key", "")\<close>\<close>

definition resolve_key :: "state \<Rightarrow> string" where
  "resolve_key s =
     (let stored = (case api_key s of None \<Rightarrow> [] | Some k \<Rightarrow> k)
      in case environ_key s of None \<Rightarrow> stored
         | Some e \<Rightarrow> if e \<noteq> [] then e else stored)"

definition setup_gemini_api :: "externals \<Rightarrow> state \<Rightarrow> bool \<times> node list" where
  "setup_gemini_api ext s =
     (let k = resolve_key s
      in if k \<noteq> [] then (if configure ext k then (True, []) else (False, [ApiConfigError]))
         else (False, []))"

section \<open>Prompt and generation\<close>

definition build_prompt :: "trip_form \<Rightarrow> string" where
  \<open>build_prompt f = py_join ''\<newline>'' [
      ''You are an expert travel planner. Create a detailed '' @ py_str_int (num_days f) @ ''-day travel itinerary for '' @ destination f @ ''.'',
      '''',
      ''Trip Details:'',
      ''- Travelers: '' @ py_str_int (num_people f) @ '' '' @ group_type f,
      ''- Budget: '' @ budget f,
      ''- Interests: '' @ py_join '', '' (interests f),
      ''- Pace: '' @ pace f,
      ''- Accommodation: '' @ accommodation f,
      '''',
      ''Provide a comprehensive itinerary in JSON format with this EXACT structure:'',
      ''{'',
      ''    "overview": "Brief 3-sentence overview of the destination and what makes it special",'',
      ''    "daily_itineraries": ['',
      ''        {'',
      ''            "day": 1,'',
      ''            "title": "Descriptive day title",'',
      ''            "activities": ['',
      ''                {'',
      ''                    "time": "9:00 AM",'',
      ''                    "activity": "Activity name",'',
      ''                    "description": "Detailed description",'',
      ''                    "duration": "2 hours",'',
      ''                    "cost": 50'',
      ''                }'',
      ''            ],'',
      ''            "meals": ['',
      ''                {'',
      ''                    "meal": "breakfast",'',
      ''                    "restaurant": "Restaurant name",'',
      ''                    "cuisine": "Cuisine type",'',
      ''                    "cost": 20'',
      ''                }'',
      ''            ],'',
      ''            "estimated_cost": 200,'',
      ''            "travel_tips": "Specific tips for this day"'',
      ''        }'',
      ''    ],'',
      ''    "famous_attractions": ["attraction1", "attraction2", "..."],'',
      ''    "local_cuisine": ["dish1", "dish2", "..."],'',
      ''    "travel_tips": ["tip1", "tip2", "..."],'',
      ''    "packing_suggestions": ["item1", "item2", "..."],'',
      ''    "total_estimated_cost": 1500'',
      ''}'',
      '''',
      ''Important:'',
      ''- Include 3-4 activities per day for '' @ pace f @ '' pace'',
      ''- All costs in USD'',
      ''- Make it realistic and specific to '' @ destination f,
      ''- Consider '' @ budget f @ '' budget level'',
      ''- Return ONLY valid JSON, no markdown formatting'']\<close>

text \<open>Lines 143 to 147: the cleaning of the reply.\<close>

definition clean_response :: "string \<Rightarrow> py_error + string" where
  "clean_response raw =
     (let text = py_strip raw
      in if py_in ''```json'' text
         then and_then (py_index (py_split text ''```json'') 1) (\<lambda>a.
              and_then (py_index (py_split a ''```'') 0) (\<lambda>b. Inr (py_strip b)))
         else if py_in ''```'' text
         then and_then (py_index (py_split text ''```'') 1) (\<lambda>a.
              and_then (py_index (py_split a ''```'') 0) (\<lambda>b. Inr (py_strip b)))
         else Inr text)"

text \<open>
  Lines 143 to 160, after the reply has arrived: clean, decode, set \<^verbatim>\<open>destination\<close>.
  A \<^verbatim>\<open>JSONDecodeError\<close> is reported with the first 500 characters of the cleaned text,
  any other exception as an AI error; both make the function return \<^verbatim>\<open>None\<close>, here \<open>Inl\<close>.
  The messages of lines 155, 156 and 159 are taken to be shown without an exception of
  their own.
\<close>

definition normalize_response :: "externals \<Rightarrow> string \<Rightarrow> string \<Rightarrow> failure + json" where
  "normalize_response ext dest raw =
     (case clean_response raw of
        Inl e \<Rightarrow> Inl (AIError e)
      | Inr text \<Rightarrow>
          (case json_loads ext text of
             Inl e \<Rightarrow> if e = JSONDecodeError then Inl (ParseFailure (take 500 text))
                      else Inl (AIError e)
           | Inr parsed \<Rightarrow>
               (case py_setitem parsed ''destination'' (JString dest) of
                  Inl e \<Rightarrow> Inl (AIError e)
                | Inr it \<Rightarrow> Inr it)))"

text \<open>
  How a call of \<open>generate_itinerary_with_gemini\<close> ends: it returns the dictionary, it
  returns \<^verbatim>\<open>None\<close> after showing a failure, or an exception leaves it.
\<close>

datatype generated = Itinerary json | Nothing failure | Escapes py_error

text \<open>
  \<open>generate_itinerary_with_gemini\<close> takes the eight form values as one record and
  returns, with its result, the prompts it sent to the model. An exception of the client
  is caught by the handlers of lines 154 and 158. When the client itself raises a
  \<^verbatim>\<open>JSONDecodeError\<close>, the handler of line 154 shows its message and then reads
  \<^verbatim>\<open>text\<close>, which line 143 has not bound yet: \<^verbatim>\<open>UnboundLocalError\<close> leaves the function.
\<close>

definition generate_itinerary_with_gemini ::
    "externals \<Rightarrow> trip_form \<Rightarrow> string list \<times> generated" where
  "generate_itinerary_with_gemini ext f =
     (let prompt = build_prompt f
      in ([prompt],
          case generate_content ext prompt of
            Inl e \<Rightarrow> if e = JSONDecodeError then Escapes UnboundLocalError
                     else Nothing (AIError e)
          | Inr raw \<Rightarrow>
              (case normalize_response ext (destination f) raw of
                 Inl fl \<Rightarrow> Nothing fl
               | Inr it \<Rightarrow> Itinerary it)))"

text \<open>
  Lines 254 to 282: what a click on the generate button does. The result is the session,
  what was shown, the prompts sent, and the exception that left the handler, if any.
\<close>

definition on_generate ::
    "externals \<Rightarrow> trip_form \<Rightarrow> state
       \<Rightarrow> state \<times> node list \<times> string list \<times> py_error option" where
  "on_generate ext f s =
     (if destination f = [] then (s, [ErrorDestination], [], None)
      else if interests f = [] then (s, [ErrorInterests], [], None)
      else
        (case generate_itinerary_with_gemini ext f of
           (sent, Escapes e) \<Rightarrow> (s, [ParseErrorMessage], sent, Some e)
         | (sent, Nothing fl) \<Rightarrow>
             (s, [GenerationError fl, GenerationStatus Failed], sent, None)
         | (sent, Itinerary it) \<Rightarrow>
             if py_bool it
             then (s\<lparr>itinerary := Some it\<rparr>, [GenerationStatus Complete, Balloons], sent, None)
             else (s, [GenerationStatus Failed], sent, None)))"

section \<open>Reading decoded values\<close>

text \<open>\<^verbatim>\<open>d[k]\<close> with a string key: only a dictionary can be subscripted with one.\<close>

fun py_getitem :: "json \<Rightarrow> string \<Rightarrow> py_error + json" where
  "py_getitem (JObject kvs) k = (case map_of kvs k of None \<Rightarrow> Inl KeyError | Some v \<Rightarrow> Inr v)"
| "py_getitem _ k = Inl TypeError"

text \<open>\<^verbatim>\<open>d.get(k, default)\<close>\<close>

fun py_get :: "json \<Rightarrow> string \<Rightarrow> json \<Rightarrow> py_error + json" where
  "py_get (JObject kvs) k d = (case map_of kvs k of None \<Rightarrow> Inr d | Some v \<Rightarrow> Inr v)"
| "py_get _ k d = Inl AttributeError"

text \<open>What a \<^verbatim>\<open>for\<close> loop runs through: a list's items, a dictionary's keys, a string's characters.\<close>

fun py_iter :: "json \<Rightarrow> py_error + json list" where
  "py_iter (JArray xs) = Inr xs"
| "py_iter (JObject kvs) = Inr (map (\<lambda>kv. JString (fst kv)) kvs)"
| "py_iter (JString s) = Inr (map (\<lambda>c. JString [c]) s)"
| "py_iter _ = Inl TypeError"

fun py_len :: "json \<Rightarrow> py_error + nat" where
  "py_len (JArray xs) = Inr (length xs)"
| "py_len (JObject kvs) = Inr (length kvs)"
| "py_len (JString s) = Inr (length s)"
| "py_len _ = Inl TypeError"

text \<open>
  The value that a format specification ending in \<^verbatim>\<open>f\<close> prints: numbers and booleans
  have one, a string raises \<^verbatim>\<open>ValueError\<close>, anything else \<^verbatim>\<open>TypeError\<close>.
\<close>

fun py_number :: "json \<Rightarrow> py_error + rat" where
  "py_number (JInt i) = Inr (of_int i)"
| "py_number (JFloat r) = Inr r"
| "py_number (JBool b) = Inr (if b then 1 else 0)"
| "py_number (JString s) = Inl ValueError"
| "py_number _ = Inl TypeError"

text \<open>\<^verbatim>\<open>x / n\<close> for an \<^verbatim>\<open>int\<close> \<open>n\<close>\<close>

fun py_truediv :: "json \<Rightarrow> int \<Rightarrow> py_error + rat" where
  "py_truediv (JInt i) n = (if n = 0 then Inl ZeroDivisionError else Inr (of_int i / of_int n))"
| "py_truediv (JFloat r) n = (if n = 0 then Inl ZeroDivisionError else Inr (r / of_int n))"
| "py_truediv (JBool b) n =
     (if n = 0 then Inl ZeroDivisionError else Inr ((if b then 1 else 0) / of_int n))"
| "py_truediv _ n = Inl TypeError"

text \<open>What an f-string puts in for a value without a format specification.\<close>

fun py_str :: "externals \<Rightarrow> json \<Rightarrow> string" where
  "py_str ext (JString s) = s"
| "py_str ext (JInt i) = py_str_int i"
| "py_str ext (JBool b) = (if b then ''True'' else ''False'')"
| "py_str ext JNull = ''None''"
| "py_str ext v = py_repr ext v"

text \<open>\<^verbatim>\<open>x.title()\<close> exists on strings only; the element shown keeps the string itself.\<close>

fun py_title_arg :: "json \<Rightarrow> py_error + string" where
  "py_title_arg (JString s) = Inr s"
| "py_title_arg _ = Inl AttributeError"

text \<open>\<^verbatim>\<open>st.columns(n)\<close> accepts a positive number of columns only.\<close>

definition st_columns :: "nat \<Rightarrow> py_error + nat" where
  "st_columns n = (if n = 0 then Inl StreamlitAPIException else Inr n)"

section \<open>Text export\<close>

text \<open>The loop \<^verbatim>\<open>for x in xs: text += line(x)\<close>, stopping at the first exception.\<close>

fun append_each :: "('a \<Rightarrow> py_error + string) \<Rightarrow> 'a list \<Rightarrow> string \<Rightarrow> py_error + string" where
  "append_each line [] text = Inr text"
| "append_each line (x # xs) text = and_then (line x) (\<lambda>l. append_each line xs (text @ l))"

definition activity_lines :: "externals \<Rightarrow> json \<Rightarrow> py_error + string" where
  "activity_lines ext act =
     and_then (py_getitem act ''time'') (\<lambda>t.
     and_then (py_getitem act ''activity'') (\<lambda>a.
     and_then (py_getitem act ''description'') (\<lambda>d.
       Inr (''  '' @ py_str ext t @ '' - '' @ py_str ext a @ ''\<newline>''
            @ ''    '' @ py_str ext d @ ''\<newline>''))))"

definition day_lines :: "externals \<Rightarrow> json \<Rightarrow> py_error + string" where
  "day_lines ext day =
     and_then (py_getitem day ''day'') (\<lambda>n.
     and_then (py_getitem day ''title'') (\<lambda>t.
     and_then (py_getitem day ''estimated_cost'') (\<lambda>c.
     and_then (and_then (py_getitem day ''activities'') py_iter) (\<lambda>acts.
     and_then (append_each (activity_lines ext) acts
                 (''\<newline>DAY '' @ py_str ext n @ '': '' @ py_str ext t @ ''\<newline>''
                  @ ''Budget: $'' @ py_str ext c @ ''\<newline>\<newline>'')) (\<lambda>text.
       Inr (text @ ''\<newline>''))))))"

text \<open>Lines 377 to 386.\<close>

definition to_text :: "externals \<Rightarrow> json \<Rightarrow> py_error + string" where
  "to_text ext data =
     and_then (py_getitem data ''destination'') (\<lambda>d.
     and_then (py_getitem data ''overview'') (\<lambda>v.
     and_then (py_getitem data ''total_estimated_cost'') (\<lambda>c.
     and_then (and_then (py_getitem data ''daily_itineraries'') py_iter) (\<lambda>days.
       append_each (day_lines ext) days
         (''AI-GENERATED ITINERARY: '' @ py_str ext d @ ''\<newline>''
          @ replicate 60 CHR ''='' @ ''\<newline>\<newline>''
          @ ''OVERVIEW:\<newline>'' @ py_str ext v @ ''\<newline>\<newline>''
          @ ''TOTAL COST: $'' @ py_str ext c @ ''\<newline>\<newline>'')))))"

section \<open>Rendering the stored itinerary\<close>

text \<open>
  Rendering yields the elements shown so far and the exception that stopped it, if any.
\<close>

type_synonym rendering = "node list \<times> py_error option"

definition show_node :: "node \<Rightarrow> rendering" where
  "show_node n = ([n], None)"

fun then_show :: "rendering \<Rightarrow> rendering \<Rightarrow> rendering" where
  "then_show (ns, Some e) r = (ns, Some e)"
| "then_show (ns, None) r = (ns @ fst r, snd r)"

fun show_all :: "rendering list \<Rightarrow> rendering" where
  "show_all [] = ([], None)"
| "show_all (r # rs) = then_show r (show_all rs)"

definition with_value :: "py_error + 'a \<Rightarrow> ('a \<Rightarrow> rendering) \<Rightarrow> rendering" where
  "with_value m k = (case m of Inl e \<Rightarrow> ([], Some e) | Inr x \<Rightarrow> k x)"

definition for_each :: "('a \<Rightarrow> rendering) \<Rightarrow> 'a list \<Rightarrow> rendering" where
  "for_each body xs = show_all (map body xs)"

text \<open>\<^verbatim>\<open>enumerate(xs, start)\<close>\<close>

definition py_enumerate :: "nat \<Rightarrow> 'a list \<Rightarrow> (nat \<times> 'a) list" where
  "py_enumerate start xs = zip [start ..< start + length xs] xs"

definition render_activity :: "json \<Rightarrow> rendering" where
  "render_activity act =
     with_value (py_getitem act ''time'') (\<lambda>t.
     with_value (py_getitem act ''activity'') (\<lambda>a.
     with_value (py_getitem act ''description'') (\<lambda>d.
     with_value (py_getitem act ''duration'') (\<lambda>du.
     with_value (py_getitem act ''cost'') (\<lambda>c.
       show_node (ActivityItem t a d du c))))))"

definition render_meal :: "nat \<times> json \<Rightarrow> rendering" where
  "render_meal im =
     with_value (and_then (py_getitem (snd im) ''meal'') py_title_arg) (\<lambda>m.
     with_value (py_getitem (snd im) ''restaurant'') (\<lambda>r.
     with_value (py_getitem (snd im) ''cuisine'') (\<lambda>cu.
     with_value (py_getitem (snd im) ''cost'') (\<lambda>c.
       show_node (MealCard (fst im) m r cu c)))))"

text \<open>Lines 310 to 337, the body of the loop over the days.\<close>

definition render_day :: "json \<Rightarrow> rendering" where
  "render_day day_data =
     show_all [
       with_value (py_getitem day_data ''day'') (\<lambda>n.
       with_value (py_getitem day_data ''title'') (\<lambda>t. show_node (DayHeading n t))),
       with_value (and_then (py_getitem day_data ''estimated_cost'') py_number) (\<lambda>c.
         show_node (DayBudget c)),
       with_value (and_then (py_getitem day_data ''activities'') py_iter)
         (for_each render_activity),
       with_value (and_then (py_getitem day_data ''meals'') py_len) (\<lambda>n.
       with_value (st_columns n) (\<lambda>cols. show_node (DiningColumns cols))),
       with_value (and_then (py_getitem day_data ''meals'') py_iter) (\<lambda>ms.
         for_each render_meal (py_enumerate 0 ms)),
       with_value (py_getitem day_data ''travel_tips'') (\<lambda>t. show_node (DayTip t))]"

definition render_list :: "listing \<Rightarrow> json \<Rightarrow> string \<Rightarrow> rendering" where
  "render_list l data k =
     with_value (and_then (py_getitem data k) py_iter) (\<lambda>xs.
       for_each (\<lambda>ix. show_node (ListEntry l (fst ix) (snd ix))) (py_enumerate 1 xs))"

text \<open>\<^verbatim>\<open>f"ai_itinerary_{destination.replace(' ', '_')}"\<close> and the extension.\<close>

definition export_name :: "trip_form \<Rightarrow> string \<Rightarrow> string" where
  "export_name f ext_name =
     ''ai_itinerary_'' @ map (\<lambda>c. if c = CHR '' '' then CHR ''_'' else c) (destination f)
     @ ext_name"

text \<open>
  Lines 286 to 394: the page for a stored itinerary, up to the button that asks for a new
  one. The per-person figure divides by the \<open>num_people\<close> of the form of this run.
\<close>

definition render_results :: "externals \<Rightarrow> trip_form \<Rightarrow> json \<Rightarrow> rendering" where
  "render_results ext f data =
     show_all [
       with_value (py_getitem data ''destination'') (\<lambda>d. show_node (Title d)),
       with_value (py_getitem data ''overview'') (\<lambda>v. show_node (Overview v)),
       with_value (py_getitem data ''total_estimated_cost'') (\<lambda>total.
         show_all [
           with_value (py_number total) (\<lambda>q. show_node (Metric TotalCost q)),
           with_value (py_truediv total (num_people f)) (\<lambda>q. show_node (Metric PerPerson q)),
           show_node (DurationMetric (num_days f)),
           with_value (and_then (py_get data ''famous_attractions'' (JArray [])) py_len) (\<lambda>n.
             show_node (ActivitiesMetric n))]),
       with_value (and_then (py_getitem data ''daily_itineraries'') py_iter)
         (for_each render_day),
       render_list Attractions data ''famous_attractions'',
       render_list Cuisine data ''local_cuisine'',
       render_list Tips data ''travel_tips'',
       render_list Packing data ''packing_suggestions'',
       show_node (DownloadJson (json_dumps ext data) (export_name f ''.json'')),
       with_value (to_text ext data) (\<lambda>t. show_node (DownloadTxt t (export_name f ''.txt''))),
       show_node NewButton]"

section \<open>One run of the script\<close>

record inputs =
  form :: trip_form
  api_key_input :: string
  save_clicked :: bool
  generate_clicked :: bool
  new_clicked :: bool

datatype ending = Finished | Rerun | Raised py_error

record outcome =
  final :: state
  shown :: "node list"
  calls :: "string list"
  ending :: ending

text \<open>Lines 190 to 192: saving the key writes it to the session and to the environment.\<close>

definition save_key :: "inputs \<Rightarrow> state \<Rightarrow> state" where
  "save_key inp s =
     (if save_clicked inp
      then s\<lparr>environ_key := Some (api_key_input inp), api_key := Some (api_key_input inp)\<rparr>
      else s)"

text \<open>
  Lines 285 to 419: the page below the form, for the state the run has reached. A click on
  the button for a new itinerary deletes the stored one and restarts the script.
\<close>

definition display :: "externals \<Rightarrow> inputs \<Rightarrow> bool \<Rightarrow> state \<Rightarrow> state \<times> node list \<times> ending" where
  "display ext inp api_configured s =
     (case itinerary s of
        None \<Rightarrow> (s, [Welcome api_configured], Finished)
      | Some data \<Rightarrow>
          (case render_results ext (form inp) data of
             (ns, Some e) \<Rightarrow> (s, ns, Raised e)
           | (ns, None) \<Rightarrow>
               if new_clicked inp then (s\<lparr>itinerary := None\<rparr>, ns, Rerun)
               else (s, ns, Finished)))"

text \<open>
  The script from the key panel to the page. A disabled button is never reported as
  clicked, so \<open>generate_btn\<close> needs the key to be configured. An exception that leaves
  the handler of the button ends the run before the page is drawn.
\<close>

definition run :: "externals \<Rightarrow> inputs \<Rightarrow> state \<Rightarrow> outcome" where
  "run ext inp s =
     (let panel = snd (setup_gemini_api ext s) @ [ApiKeyPanel (\<not> fst (setup_gemini_api ext s))];
          s1 = save_key inp s;
          saved = (if save_clicked inp then setup_gemini_api ext s1 else (False, []))
      in if fst saved
         then \<lparr>final = s1, shown = panel @ snd saved @ [KeySaved], calls = [], ending = Rerun\<rparr>
         else
           (let api_configured = fst (setup_gemini_api ext s1);
                sidebar = panel @ snd saved @ snd (setup_gemini_api ext s1)
                          @ [GenerateButton (\<not> api_configured)]
                          @ (if api_configured then [] else [ConfigureWarning]);
                generate_btn = (generate_clicked inp \<and> api_configured);
                clicked = (if generate_btn then on_generate ext (form inp) s1
                           else (s1, [], [], None));
                page = display ext inp api_configured (fst clicked)
            in case snd (snd (snd clicked)) of
                 Some e \<Rightarrow>
                   \<lparr>final = fst clicked, shown = sidebar @ fst (snd clicked),
                    calls = fst (snd (snd clicked)), ending = Raised e\<rparr>
               | None \<Rightarrow>
                   \<lparr>final = fst page,
                    shown = sidebar @ fst (snd clicked) @ fst (snd page),
                    calls = fst (snd (snd clicked)),
                    ending = snd (snd page)\<rparr>))"

section \<open>A decoder and an encoder for the examples\<close>

text \<open>
  The examples below need concrete collaborators. \<open>demo_loads\<close> decodes the part of JSON
  without escapes and floats the way \<^verbatim>\<open>json.loads\<close> does, \<open>demo_dumps\<close> writes that part
  the way \<^verbatim>\<open>json.dumps\<close> does by default; a float has no text here. The theorems hold
  for every decoder and encoder, these two only instantiate them.
\<close>

definition json_ws :: "char \<Rightarrow> bool" where
  "json_ws c = (c \<in> set [CHR '' '', CHR 0x09, CHR 0x0A, CHR 0x0D])"

fun scan_string :: "string \<Rightarrow> (string \<times> string) option" where
  "scan_string [] = None"
| "scan_string (c # cs) =
     (if c = CHR 0x22 then Some ([], cs)
      else if c = CHR 0x5C \<or> (of_char c :: nat) < 32 then None
      else map_option (\<lambda>tr. (c # fst tr, snd tr)) (scan_string cs))"

definition is_digit :: "char \<Rightarrow> bool" where
  "is_digit c = (c \<in> set ''0123456789'')"

definition digits_value :: "string \<Rightarrow> int" where
  "digits_value ds = foldl (\<lambda>a c. 10 * a + (int (of_char c) - 48)) 0 ds"

definition scan_int :: "string \<Rightarrow> (json \<times> string) option" where
  "scan_int s =
     (let neg = (take 1 s = ''-'');
          body = (if neg then drop 1 s else s);
          ds = takeWhile is_digit body;
          r = dropWhile is_digit body
      in if ds = [] \<or> (length ds > 1 \<and> hd ds = CHR ''0'') \<or> take 1 r \<in> set [''.'', ''e'', ''E'']
         then None
         else Some (JInt (if neg then - digits_value ds else digits_value ds), r))"

fun dec_value :: "nat \<Rightarrow> string \<Rightarrow> (json \<times> string) option"
and dec_elems :: "nat \<Rightarrow> string \<Rightarrow> (json list \<times> string) option"
and dec_members :: "nat \<Rightarrow> string \<Rightarrow> ((string \<times> json) list \<times> string) option"
where
  "dec_value 0 s = None"
| "dec_value (Suc n) s =
     (case dropWhile json_ws s of
        [] \<Rightarrow> None
      | c # cs \<Rightarrow>
          if c = CHR ''{'' then
            (case dropWhile json_ws cs of
               [] \<Rightarrow> None
             | d # ds \<Rightarrow>
                 if d = CHR ''}'' then Some (JObject [], ds)
                 else map_option
                        (\<lambda>mr. (JObject (foldl (\<lambda>kvs kv. AList.update (fst kv) (snd kv) kvs) [] (fst mr)),
                                snd mr))
                        (dec_members n (d # ds)))
          else if c = CHR ''['' then
            (case dropWhile json_ws cs of
               [] \<Rightarrow> None
             | d # ds \<Rightarrow>
                 if d = CHR '']'' then Some (JArray [], ds)
                 else map_option (\<lambda>vr. (JArray (fst vr), snd vr)) (dec_elems n (d # ds)))
          else if c = CHR 0x22 then map_option (\<lambda>tr. (JString (fst tr), snd tr)) (scan_string cs)
          else if prefix ''true'' (c # cs) then Some (JBool True, drop 4 (c # cs))
          else if prefix ''false'' (c # cs) then Some (JBool False, drop 5 (c # cs))
          else if prefix ''null'' (c # cs) then Some (JNull, drop 4 (c # cs))
          else scan_int (c # cs))"
| "dec_elems 0 s = None"
| "dec_elems (Suc n) s =
     (case dec_value n s of
        None \<Rightarrow> None
      | Some (v, r) \<Rightarrow>
          (case dropWhile json_ws r of
             [] \<Rightarrow> None
           | c # cs \<Rightarrow>
               if c = CHR '']'' then Some ([v], cs)
               else if c = CHR '','' then map_option (\<lambda>vr. (v # fst vr, snd vr)) (dec_elems n cs)
               else None))"
| "dec_members 0 s = None"
| "dec_members (Suc n) s =
     (case dropWhile json_ws s of
        [] \<Rightarrow> None
      | q # cs \<Rightarrow>
          if q \<noteq> CHR 0x22 then None
          else
            (case scan_string cs of
               None \<Rightarrow> None
             | Some (k, r) \<Rightarrow>
                 (case dropWhile json_ws r of
                    [] \<Rightarrow> None
                  | c # r2 \<Rightarrow>
                      if c \<noteq> CHR '':'' then None
                      else
                        (case dec_value n r2 of
                           None \<Rightarrow> None
                         | Some (v, r3) \<Rightarrow>
                             (case dropWhile json_ws r3 of
                                [] \<Rightarrow> None
                              | e # r4 \<Rightarrow>
                                  if e = CHR ''}'' then Some ([(k, v)], r4)
                                  else if e = CHR '','' then
                                    map_option (\<lambda>mr. ((k, v) # fst mr, snd mr)) (dec_members n r4)
                                  else None)))))"

definition demo_loads :: "string \<Rightarrow> py_error + json" where
  "demo_loads s =
     (case dec_value (Suc (length s)) s of
        None \<Rightarrow> Inl JSONDecodeError
      | Some (v, r) \<Rightarrow> if dropWhile json_ws r = [] then Inr v else Inl JSONDecodeError)"

definition quoted :: "string \<Rightarrow> string" where
  "quoted s = [CHR 0x22] @ s @ [CHR 0x22]"

fun demo_dumps :: "json \<Rightarrow> string" where
  "demo_dumps JNull = ''null''"
| "demo_dumps (JBool b) = (if b then ''true'' else ''false'')"
| "demo_dumps (JInt i) = py_str_int i"
| "demo_dumps (JFloat r) = []"
| "demo_dumps (JString s) = quoted s"
| "demo_dumps (JArray xs) = ''['' @ py_join '', '' (map demo_dumps xs) @ '']''"
| "demo_dumps (JObject kvs) =
     ''{'' @ py_join '', '' (map (\<lambda>kv. quoted (fst kv) @ '': '' @ demo_dumps (snd kv)) kvs) @ ''}''"

definition demo_ext :: "py_error + string \<Rightarrow> externals" where
  "demo_ext reply =
     \<lparr>configure = (\<lambda>k. True), generate_content = (\<lambda>p. reply), json_loads = demo_loads,
      json_dumps = demo_dumps, py_repr = demo_dumps\<rparr>"

definition lisbon :: trip_form where
  "lisbon = \<lparr>destination = ''Lisbon'', num_days = 3, num_people = 2, budget = ''Medium'',
             interests = [''Food'', ''Culture''], group_type = ''Couple'', pace = ''Moderate'',
             accommodation = ''Mid-range''\<rparr>"

definition fresh :: state where
  "fresh = \<lparr>environ_key = None, api_key = None, itinerary = None\<rparr>"

definition stored_stub :: state where
  "stored_stub = \<lparr>environ_key = Some ''key'', api_key = None,
                   itinerary = Some (JObject [(''destination'', JString ''Porto'')])\<rparr>"

definition idle :: inputs where
  "idle = \<lparr>form = lisbon, api_key_input = [], save_clicked = False, generate_clicked = False,
           new_clicked = False\<rparr>"

section \<open>The itinerary the prompt asks for\<close>

text \<open>
  The prompt of lines 96 to 129 describes the reply: a dictionary of seven keys, days with
  activities and meals. The records below are that structure, with the destination that
  the script adds; the functions after them give the dictionary a value is decoded to.
\<close>

datatype number = Whole int | Fraction rat

fun number_json :: "number \<Rightarrow> json" where
  "number_json (Whole i) = JInt i"
| "number_json (Fraction r) = JFloat r"

record activity =
  act_time :: string
  act_name :: string
  act_description :: string
  act_duration :: string
  act_cost :: number

record meal =
  meal_name :: string
  restaurant :: string
  cuisine :: string
  meal_cost :: number

record day_plan =
  day :: int
  title :: string
  activities :: "activity list"
  meals :: "meal list"
  estimated_cost :: number
  day_tips :: string

record itinerary_value =
  it_destination :: string
  overview :: string
  daily_itineraries :: "day_plan list"
  famous_attractions :: "string list"
  local_cuisine :: "string list"
  travel_tips :: "string list"
  packing_suggestions :: "string list"
  total_estimated_cost :: number

definition activity_json :: "activity \<Rightarrow> json" where
  "activity_json a =
     JObject [(''time'', JString (act_time a)), (''activity'', JString (act_name a)),
              (''description'', JString (act_description a)),
              (''duration'', JString (act_duration a)), (''cost'', number_json (act_cost a))]"

definition meal_json :: "meal \<Rightarrow> json" where
  "meal_json m =
     JObject [(''meal'', JString (meal_name m)), (''restaurant'', JString (restaurant m)),
              (''cuisine'', JString (cuisine m)), (''cost'', number_json (meal_cost m))]"

definition day_json :: "day_plan \<Rightarrow> json" where
  "day_json d =
     JObject [(''day'', JInt (day d)), (''title'', JString (title d)),
              (''activities'', JArray (map activity_json (activities d))),
              (''meals'', JArray (map meal_json (meals d))),
              (''estimated_cost'', number_json (estimated_cost d)),
              (''travel_tips'', JString (day_tips d))]"

definition expected_fields :: "itinerary_value \<Rightarrow> (string \<times> json) list" where
  "expected_fields it =
     [(''overview'', JString (overview it)),
      (''daily_itineraries'', JArray (map day_json (daily_itineraries it))),
      (''famous_attractions'', JArray (map JString (famous_attractions it))),
      (''local_cuisine'', JArray (map JString (local_cuisine it))),
      (''travel_tips'', JArray (map JString (travel_tips it))),
      (''packing_suggestions'', JArray (map JString (packing_suggestions it))),
      (''total_estimated_cost'', number_json (total_estimated_cost it))]"

text \<open>The reply as the prompt asks for it, and the dictionary the session stores.\<close>

definition expected_json :: "itinerary_value \<Rightarrow> json" where
  "expected_json it = JObject (expected_fields it)"

definition itinerary_json :: "itinerary_value \<Rightarrow> json" where
  "itinerary_json it =
     JObject (expected_fields it @ [(''destination'', JString (it_destination it))])"

definition sample :: itinerary_value where
  "sample =
     \<lparr>it_destination = ''Lisbon'', overview = ''Hills and tiles'',
      daily_itineraries =
        [\<lparr>day = 1, title = ''Alfama'',
          activities = [\<lparr>act_time = ''9:00 AM'', act_name = ''Tram 28'',
                         act_description = ''Ride the tram'', act_duration = ''2 hours'',
                         act_cost = Whole 3\<rparr>],
          meals = [\<lparr>meal_name = ''lunch'', restaurant = ''Tasca'', cuisine = ''Portuguese'',
                    meal_cost = Whole 12\<rparr>],
          estimated_cost = Whole 15, day_tips = ''Wear good shoes''\<rparr>],
      famous_attractions = [''Belem Tower''], local_cuisine = [''Bacalhau''],
      travel_tips = [''Carry cash''], packing_suggestions = [''Sunscreen''],
      total_estimated_cost = Whole 1500\<rparr>"

definition bare :: itinerary_value where
  "bare =
     \<lparr>it_destination = ''Lisbon'', overview = ''```'', daily_itineraries = [],
      famous_attractions = [], local_cuisine = [], travel_tips = [], packing_suggestions = [],
      total_estimated_cost = Whole 0\<rparr>"

text \<open>
  \<open>after_first t s\<close> is what follows the leftmost occurrence of \<open>t\<close> in \<open>s\<close>;
  \<open>in_order ts s\<close> tells whether the strings \<open>ts\<close> occur in \<open>s\<close> one after the other,
  without overlap.
\<close>

fun after_first :: "string \<Rightarrow> string \<Rightarrow> string option" where
  "after_first t [] = (if t = [] then Some [] else None)"
| "after_first t (c # cs) =
     (if prefix t (c # cs) then Some (drop (length t) (c # cs)) else after_first t cs)"

fun in_order :: "string list \<Rightarrow> string \<Rightarrow> bool" where
  "in_order [] s = True"
| "in_order (t # ts) s = (case after_first t s of None \<Rightarrow> False | Some r \<Rightarrow> in_order ts r)"

text \<open>Each day's title followed by the names of its activities, day after day.\<close>

definition export_names :: "itinerary_value \<Rightarrow> string list" where
  "export_names it =
     concat (map (\<lambda>d. title d # map act_name (activities d)) (daily_itineraries it))"

definition keyed :: state where
  "keyed = \<lparr>environ_key = Some ''key'', api_key = None, itinerary = None\<rparr>"

definition no_meals :: itinerary_value where
  "no_meals = sample\<lparr>daily_itineraries := map (\<lambda>d. d\<lparr>meals := []\<rparr>) (daily_itineraries sample)\<rparr>"

definition later :: inputs where
  "later = idle\<lparr>form := lisbon\<lparr>num_people := 4\<rparr>\<rparr>"

definition stored :: state where
  "stored = keyed\<lparr>itinerary := Some (itinerary_json sample)\<rparr>"

section \<open>Input validation\<close>

text \<open>
  C9. A submission with an empty destination or with no interest selected is rejected
  with a message on the page; no prompt is sent to the model, the session is as before
  and no exception leaves the handler.
\<close>

theorem empty_submission_rejected:
  assumes "destination f = [] \<or> interests f = []"
  shows "on_generate ext f s =
           (s, [if destination f = [] then ErrorDestination else ErrorInterests], [], None)"
  using assms by (auto simp: on_generate_def)

theorem empty_submission_rejected_witness:
  "on_generate (demo_ext (Inr ''{}'')) (lisbon\<lparr>interests := []\<rparr>) fresh
     = (fresh, [ErrorInterests], [], None)"
  using empty_submission_rejected [of "lisbon\<lparr>interests := []\<rparr>" "demo_ext (Inr ''{}'')" fresh]
  by (simp add: lisbon_def)

section \<open>The cleaning of the reply never raises\<close>

lemma split_from_nonempty: "split_from sep acc s \<noteq> []"
  by (induction sep acc s rule: split_from.induct) auto

lemma split_from_two: "sep \<noteq> [] \<Longrightarrow> py_in sep s \<Longrightarrow> 2 \<le> length (split_from sep acc s)"
proof (induction s arbitrary: acc)
  case Nil
  then show ?case by simp
next
  case (Cons c cs)
  show ?case
  proof (cases "prefix sep (c # cs)")
    case True
    have "split_from sep [] (drop (length sep) (c # cs)) \<noteq> []"
      by (rule split_from_nonempty)
    then have "1 \<le> length (split_from sep [] (drop (length sep) (c # cs)))"
      by (cases "split_from sep [] (drop (length sep) (c # cs))") auto
    with True Cons.prems(1) show ?thesis by simp
  next
    case False
    with Cons.prems have "py_in sep cs" by simp
    with Cons.IH Cons.prems(1) False show ?thesis by simp
  qed
qed

lemma py_index_first: "\<exists>x. py_index (py_split s sep) 0 = Inr x"
  using split_from_nonempty [of sep "[]" s] by (simp add: py_index_def py_split_def)

lemma py_index_second: "sep \<noteq> [] \<Longrightarrow> py_in sep s \<Longrightarrow> \<exists>x. py_index (py_split s sep) 1 = Inr x"
  using split_from_two [of sep s "[]"] by (simp add: py_index_def py_split_def)

lemma clean_response_total: "\<exists>text. clean_response raw = Inr text"
proof -
  have a: "\<And>sep. sep \<noteq> [] \<Longrightarrow> py_in sep (py_strip raw) \<Longrightarrow>
     \<exists>t. and_then (py_index (py_split (py_strip raw) sep) 1) (\<lambda>a.
              and_then (py_index (py_split a ''```'') 0) (\<lambda>b. Inr (py_strip b))) = Inr t"
  proof -
    fix sep :: string assume "sep \<noteq> []" "py_in sep (py_strip raw)"
    then obtain x where x: "py_index (py_split (py_strip raw) sep) 1 = Inr x"
      using py_index_second by blast
    obtain y where y: "py_index (py_split x ''```'') 0 = Inr y"
      using py_index_first by blast
    show "\<exists>t. and_then (py_index (py_split (py_strip raw) sep) 1) (\<lambda>a.
              and_then (py_index (py_split a ''```'') 0) (\<lambda>b. Inr (py_strip b))) = Inr t"
      using x y by (simp add: and_then_def)
  qed
  show ?thesis
    unfolding clean_response_def Let_def
    using a [of "''```json''"] a [of "''```''"] by auto
qed

section \<open>What the normalizer checks\<close>

text \<open>
  C1, as the code has it. When the cleaned reply decodes, the normalizer looks at one thing
  only: a decoded dictionary is returned with \<^verbatim>\<open>destination\<close> set to the requested one and
  everything else as decoded, no key is required and no value is converted; any other
  decoded value fails with a \<^verbatim>\<open>TypeError\<close> reported as an AI error.
\<close>

theorem normalize_response_parsed:
  assumes "clean_response raw = Inr text" and "json_loads ext text = Inr parsed"
  shows "normalize_response ext dest raw =
           (case parsed of
              JObject kvs \<Rightarrow> Inr (JObject (AList.update ''destination'' (JString dest) kvs))
            | _ \<Rightarrow> Inl (AIError TypeError))"
  using assms by (cases parsed) (simp_all add: normalize_response_def)

text \<open>
  A reply that decodes to a dictionary without any of the fields is accepted, and a total
  that arrives as the string \<^verbatim>\<open>"1500"\<close> stays a string.
\<close>

theorem no_schema_validation_counterexample:
  \<open>normalize_response (demo_ext (Inr ''{}'')) ''Lisbon'' ''{}''
     = Inr (JObject [(''destination'', JString ''Lisbon'')])
   \<and> normalize_response (demo_ext (Inr ''{}'')) ''Lisbon'' ''{"total_estimated_cost": "1500"}''
     = Inr (JObject [(''total_estimated_cost'', JString ''1500''),
                     (''destination'', JString ''Lisbon'')])\<close>
  by code_simp

theorem normalize_response_parsed_witness:
  \<open>clean_response ''[1, 2]'' = Inr ''[1, 2]''
   \<and> json_loads (demo_ext (Inr ''{}'')) ''[1, 2]'' = Inr (JArray [JInt 1, JInt 2])
   \<and> normalize_response (demo_ext (Inr ''{}'')) ''Lisbon'' ''[1, 2]'' = Inl (AIError TypeError)\<close>
proof -
  have a: \<open>clean_response ''[1, 2]'' = Inr ''[1, 2]''\<close> by code_simp
  have b: \<open>json_loads (demo_ext (Inr ''{}'')) ''[1, 2]'' = Inr (JArray [JInt 1, JInt 2])\<close>
    by code_simp
  show ?thesis
    using a b normalize_response_parsed [OF a b, of "''Lisbon''"] by simp
qed

section \<open>A failed generation\<close>

lemma update_nonempty: "AList.update k v kvs \<noteq> []"
  by (cases kvs) auto

lemma normalized_is_true: "normalize_response ext dest raw = Inr it \<Longrightarrow> py_bool it"
proof -
  assume a: "normalize_response ext dest raw = Inr it"
  note u = update_nonempty
  from a obtain parsed where "py_setitem parsed ''destination'' (JString dest) = Inr it"
    by (auto simp: normalize_response_def split: sum.splits if_splits)
  then show ?thesis using u by (cases parsed) auto
qed

lemma returns_nothing_cases:
  "(snd (generate_itinerary_with_gemini ext f) = Nothing fl) =
     ((\<exists>e. generate_content ext (build_prompt f) = Inl e \<and> e \<noteq> JSONDecodeError
            \<and> fl = AIError e)
      \<or> (\<exists>raw. generate_content ext (build_prompt f) = Inr raw
            \<and> normalize_response ext (destination f) raw = Inl fl))"
  by (auto simp: generate_itinerary_with_gemini_def Let_def split: sum.splits)

lemma client_decode_error_escapes:
  assumes "destination f \<noteq> []" and "interests f \<noteq> []"
      and "generate_content ext (build_prompt f) = Inl JSONDecodeError"
  shows "on_generate ext f s = (s, [ParseErrorMessage], [build_prompt f], Some UnboundLocalError)"
  using assms by (simp add: on_generate_def generate_itinerary_with_gemini_def Let_def)

text \<open>
  C2, as the code has it. Take a valid submission. When the generator returns
  \<^verbatim>\<open>None\<close>, because the client raised an exception other than a JSON decoding error, or
  the cleaned reply did not decode, or it decoded to something that is not a dictionary,
  the session is the one before the click, the page below the form is the one that session
  gives, and the status shows the failure. A reply that decodes to a dictionary is not a
  failure, whatever it lacks: the generator returns it and it replaces the stored
  itinerary, with the status complete.
\<close>

theorem generation_error_keeps_session:
  assumes "destination f \<noteq> []" and "interests f \<noteq> []"
  shows "(\<forall>fl. snd (generate_itinerary_with_gemini ext f) = Nothing fl \<longrightarrow>
            on_generate ext f s
              = (s, [GenerationError fl, GenerationStatus Failed], [build_prompt f], None)
            \<and> display ext inp c (fst (on_generate ext f s)) = display ext inp c s)
         \<and> (\<forall>raw cleaned kvs.
               generate_content ext (build_prompt f) = Inr raw
               \<and> clean_response raw = Inr cleaned
               \<and> json_loads ext cleaned = Inr (JObject kvs) \<longrightarrow>
               on_generate ext f s
                 = (s\<lparr>itinerary :=
                        Some (JObject (AList.update ''destination'' (JString (destination f)) kvs))\<rparr>,
                    [GenerationStatus Complete, Balloons], [build_prompt f], None))"
proof (intro conjI allI impI)
  fix fl
  assume "snd (generate_itinerary_with_gemini ext f) = Nothing fl"
  then have g: "generate_itinerary_with_gemini ext f = ([build_prompt f], Nothing fl)"
    by (auto simp: generate_itinerary_with_gemini_def Let_def)
  then show "on_generate ext f s
              = (s, [GenerationError fl, GenerationStatus Failed], [build_prompt f], None)"
    using assms by (simp add: on_generate_def)
  then show "display ext inp c (fst (on_generate ext f s)) = display ext inp c s"
    by simp
next
  fix raw cleaned kvs
  assume a: "generate_content ext (build_prompt f) = Inr raw
               \<and> clean_response raw = Inr cleaned
               \<and> json_loads ext cleaned = Inr (JObject kvs)"
  let ?it = "JObject (AList.update ''destination'' (JString (destination f)) kvs)"
  have n: "normalize_response ext (destination f) raw = Inr ?it"
    using a by (simp add: normalize_response_def)
  then have "py_bool ?it" by (rule normalized_is_true)
  moreover have "generate_itinerary_with_gemini ext f = ([build_prompt f], Itinerary ?it)"
    using a n by (simp add: generate_itinerary_with_gemini_def Let_def)
  ultimately show "on_generate ext f s
                 = (s\<lparr>itinerary := Some ?it\<rparr>,
                    [GenerationStatus Complete, Balloons], [build_prompt f], None)"
    using assms by (simp add: on_generate_def)
qed

text \<open>
  The reply \<^verbatim>\<open>{}\<close> has none of the fields, a schema error for the claim. The script
  takes it for an itinerary: the stored one is replaced and the status is complete.
\<close>

theorem generation_error_keeps_session_counterexample:
  "itinerary stored_stub = Some (JObject [(''destination'', JString ''Porto'')])
   \<and> fst (on_generate (demo_ext (Inr ''{}'')) lisbon stored_stub)
       = stored_stub\<lparr>itinerary := Some (JObject [(''destination'', JString ''Lisbon'')])\<rparr>
   \<and> fst (snd (on_generate (demo_ext (Inr ''{}'')) lisbon stored_stub))
       = [GenerationStatus Complete, Balloons]"
proof -
  have a: "normalize_response (demo_ext (Inr ''{}'')) ''Lisbon'' ''{}''
             = Inr (JObject [(''destination'', JString ''Lisbon'')])"
    by code_simp
  have b: "generate_itinerary_with_gemini (demo_ext (Inr ''{}'')) lisbon
             = ([build_prompt lisbon], Itinerary (JObject [(''destination'', JString ''Lisbon'')]))"
    using a by (simp add: generate_itinerary_with_gemini_def Let_def demo_ext_def lisbon_def)
  show ?thesis using b by (simp add: on_generate_def stored_stub_def lisbon_def)
qed

theorem generation_error_keeps_session_witness:
  "destination lisbon \<noteq> [] \<and> interests lisbon \<noteq> []
   \<and> snd (generate_itinerary_with_gemini (demo_ext (Inl ClientError)) lisbon)
       = Nothing (AIError ClientError)
   \<and> on_generate (demo_ext (Inl ClientError)) lisbon stored_stub
       = (stored_stub, [GenerationError (AIError ClientError), GenerationStatus Failed],
          [build_prompt lisbon], None)
   \<and> generate_content (demo_ext (Inr ''[1]'')) (build_prompt lisbon) = Inr ''[1]''
   \<and> snd (generate_itinerary_with_gemini (demo_ext (Inr ''[1]'')) lisbon)
       = Nothing (AIError TypeError)
   \<and> fst (on_generate (demo_ext (Inr ''[1]'')) lisbon stored_stub) = stored_stub
   \<and> clean_response ''{}'' = Inr ''{}''
   \<and> json_loads (demo_ext (Inr ''{}'')) ''{}'' = Inr (JObject [])
   \<and> fst (on_generate (demo_ext (Inr ''{}'')) lisbon stored_stub)
       = stored_stub\<lparr>itinerary := Some (JObject [(''destination'', JString ''Lisbon'')])\<rparr>"
proof -
  have a: "destination lisbon \<noteq> []" and b: "interests lisbon \<noteq> []"
    by (simp_all add: lisbon_def)
  have d: "destination lisbon = ''Lisbon''" by (simp add: lisbon_def)
  have c: "snd (generate_itinerary_with_gemini (demo_ext (Inl ClientError)) lisbon)
             = Nothing (AIError ClientError)"
    by (simp add: generate_itinerary_with_gemini_def demo_ext_def Let_def)
  have n: "normalize_response (demo_ext (Inr ''[1]'')) ''Lisbon'' ''[1]'' = Inl (AIError TypeError)"
    by code_simp
  have e: "snd (generate_itinerary_with_gemini (demo_ext (Inr ''[1]'')) lisbon)
             = Nothing (AIError TypeError)"
    using n by (simp add: generate_itinerary_with_gemini_def demo_ext_def Let_def d)
  have g: "generate_content (demo_ext (Inr ''[1]'')) (build_prompt lisbon) = Inr ''[1]''"
    and h: "generate_content (demo_ext (Inr ''{}'')) (build_prompt lisbon) = Inr ''{}''"
    by (simp_all add: demo_ext_def)
  have i: "clean_response ''{}'' = Inr ''{}''" by code_simp
  have j: "json_loads (demo_ext (Inr ''{}'')) ''{}'' = Inr (JObject [])" by code_simp
  note t1 = generation_error_keeps_session [OF a b, of "demo_ext (Inl ClientError)" stored_stub]
  note t2 = generation_error_keeps_session [OF a b, of "demo_ext (Inr ''[1]'')" stored_stub]
  note t3 = generation_error_keeps_session [OF a b, of "demo_ext (Inr ''{}'')" stored_stub]
  from t1 c have r1: "on_generate (demo_ext (Inl ClientError)) lisbon stored_stub
       = (stored_stub, [GenerationError (AIError ClientError), GenerationStatus Failed],
          [build_prompt lisbon], None)"
    by blast
  from t2 e have r2: "on_generate (demo_ext (Inr ''[1]'')) lisbon stored_stub
       = (stored_stub, [GenerationError (AIError TypeError), GenerationStatus Failed],
          [build_prompt lisbon], None)"
    by blast
  from t3 h i j have r3: "on_generate (demo_ext (Inr ''{}'')) lisbon stored_stub
       = (stored_stub\<lparr>itinerary :=
             Some (JObject (AList.update ''destination'' (JString (destination lisbon)) []))\<rparr>,
          [GenerationStatus Complete, Balloons], [build_prompt lisbon], None)"
    by blast
  show ?thesis using a b c e g i j r1 r2 r3 by (simp add: d)
qed

section \<open>The empty key\<close>

text \<open>
  C10. \<open>setup_gemini_api\<close> reports the key configured exactly when the resolved key is
  not empty and the library accepts it; the resolved key is empty exactly when the
  environment variable and the session key are each unset or empty; and in a run where it
  is empty the generate button is shown disabled and no prompt is sent.
\<close>

theorem empty_key_is_absent:
  "fst (setup_gemini_api ext s) = (resolve_key s \<noteq> [] \<and> configure ext (resolve_key s))
   \<and> (resolve_key s = []) =
       ((environ_key s = None \<or> environ_key s = Some [])
        \<and> (api_key s = None \<or> api_key s = Some []))
   \<and> (resolve_key (save_key inp s) = [] \<longrightarrow>
        GenerateButton True \<in> set (shown (run ext inp s)) \<and> calls (run ext inp s) = [])"
proof -
  have a: "fst (setup_gemini_api ext s) = (resolve_key s \<noteq> [] \<and> configure ext (resolve_key s))"
    by (simp add: setup_gemini_api_def Let_def)
  have b: "(resolve_key s = []) =
       ((environ_key s = None \<or> environ_key s = Some [])
        \<and> (api_key s = None \<or> api_key s = Some []))"
    by (auto simp: resolve_key_def Let_def split: option.splits)
  have c: "GenerateButton True \<in> set (shown (run ext inp s)) \<and> calls (run ext inp s) = []"
    if "resolve_key (save_key inp s) = []"
  proof -
    have "setup_gemini_api ext (save_key inp s) = (False, [])"
      using that by (simp add: setup_gemini_api_def Let_def)
    then show ?thesis by (simp add: run_def Let_def)
  qed
  from a b c show ?thesis by blast
qed

theorem empty_key_is_absent_witness:
  "resolve_key (save_key (idle\<lparr>generate_clicked := True\<rparr>) (fresh\<lparr>environ_key := Some []\<rparr>)) = []
   \<and> GenerateButton True
       \<in> set (shown (run (demo_ext (Inr ''{}'')) (idle\<lparr>generate_clicked := True\<rparr>)
                      (fresh\<lparr>environ_key := Some []\<rparr>)))
   \<and> calls (run (demo_ext (Inr ''{}'')) (idle\<lparr>generate_clicked := True\<rparr>)
              (fresh\<lparr>environ_key := Some []\<rparr>)) = []"
  using empty_key_is_absent [of "demo_ext (Inr ''{}'')" "fresh\<lparr>environ_key := Some []\<rparr>"
                                "idle\<lparr>generate_clicked := True\<rparr>"]
  by (simp add: resolve_key_def save_key_def idle_def fresh_def)

section \<open>Fenced and bare replies\<close>

lemma py_in_empty [simp]: "py_in [] s"
  by (cases s) auto

lemma py_in_mono: "prefix a b \<Longrightarrow> py_in b s \<Longrightarrow> py_in a s"
proof (induction s)
  case Nil
  then show ?case by simp
next
  case (Cons c cs)
  then show ?case using prefix_order.trans by auto
qed

lemma prefix_cons_append: "prefix sub (a # s) \<Longrightarrow> prefix sub (a # s @ q)"
  using prefix_prefix [of sub "a # s" q] by simp

lemma py_in_append_right: "py_in sub s \<Longrightarrow> py_in sub (s @ q)"
  by (induction s) (auto intro: prefix_cons_append)

lemma py_in_append_left: "py_in sub s \<Longrightarrow> py_in sub (p @ s)"
  by (induction p) auto

lemma prefix_avoiding:
  assumes "c \<notin> set sep" and "prefix sep (x @ c # y)"
  shows "prefix sep x"
proof -
  from assms(2) consider "prefix sep x" | us where "sep = x @ us" "prefix us (c # y)"
    by (auto simp: prefix_append)
  then show ?thesis
  proof cases
    case 1
    then show ?thesis .
  next
    case 2
    with assms(1) have "us = []" by (cases us) auto
    with 2 show ?thesis by simp
  qed
qed

lemma py_in_sep_char:
  assumes "c \<notin> set sep"
  shows "py_in sep (x @ c # y) = (py_in sep x \<or> py_in sep y)"
proof (induction x)
  case Nil
  have "prefix sep (c # y) \<Longrightarrow> sep = []"
    using prefix_avoiding [OF assms, of "[]" y] by simp
  then show ?case by auto
next
  case (Cons a x)
  have "prefix sep (a # x @ c # y) = prefix sep (a # x)"
    using prefix_avoiding [OF assms, of "a # x" y] by (auto intro: prefix_prefix [of sep "a # x" "c # y", simplified])
  with Cons show ?case by auto
qed

lemma not_in_split_from: "\<not> py_in sep s \<Longrightarrow> split_from sep acc s = [rev acc @ s]"
  by (induction s arbitrary: acc) auto

lemma prefix_shorter:
  assumes "prefix xs (ys @ zs)" and "length xs \<le> length ys"
  shows "prefix xs ys"
  using assms by (auto simp: prefix_append)

lemma split_from_first:
  assumes "sep \<noteq> []" and "\<not> py_in sep (u @ butlast sep)"
  shows "split_from sep acc (u @ sep @ w) = (rev acc @ u) # split_from sep [] w"
  using assms(2)
proof (induction u arbitrary: acc)
  case Nil
  from assms(1) obtain c cs where sep: "sep = c # cs" by (cases sep) auto
  then show ?case by simp
next
  case (Cons a u)
  have "\<not> prefix sep (a # u @ butlast sep)" and rest: "\<not> py_in sep (u @ butlast sep)"
    using Cons.prems by auto
  moreover have "prefix sep (a # u @ sep @ w) \<Longrightarrow> prefix sep (a # u @ butlast sep)"
  proof -
    assume p: "prefix sep (a # u @ sep @ w)"
    have "a # u @ sep @ w = (a # u @ butlast sep) @ (last sep # w)"
      using assms(1) by simp
    with p have "prefix sep ((a # u @ butlast sep) @ (last sep # w))" by simp
    moreover have "length sep \<le> length (a # u @ butlast sep)" using assms(1) by simp
    ultimately show ?thesis by (rule prefix_shorter)
  qed
  ultimately have "\<not> prefix sep (a # u @ sep @ w)" by blast
  then show ?case using Cons.IH [OF rest, of "a # acc"] by simp
qed

lemma strip_pad:
  assumes "py_isspace a" and "py_isspace b"
  shows "py_strip (a # s @ [b]) = py_strip s"
proof (cases "\<forall>x\<in>set s. py_isspace x")
  case True
  then have d1: "dropWhile py_isspace s = []" by simp
  have d2: "dropWhile py_isspace (s @ [b]) = []" using True assms(2) by simp
  have "py_strip (a # s @ [b]) = rev (dropWhile py_isspace (rev (dropWhile py_isspace (s @ [b]))))"
    using assms(1) by (simp add: py_strip_def)
  also have "\<dots> = []" unfolding d2 by simp
  also have "\<dots> = py_strip s" unfolding py_strip_def d1 by simp
  finally show ?thesis .
next
  case False
  then obtain x where "x \<in> set s" "\<not> py_isspace x" by blast
  then have "dropWhile py_isspace (s @ [b]) = dropWhile py_isspace s @ [b]"
    by (rule dropWhile_append1)
  then show ?thesis using assms by (simp add: py_strip_def)
qed

lemma strip_idem: "py_strip (py_strip s) = py_strip s"
proof -
  define t where "t = dropWhile py_isspace s"
  define u where "u = rev (dropWhile py_isspace (rev t))"
  have u: "py_strip s = u" by (simp add: py_strip_def t_def u_def)
  have "dropWhile py_isspace u = u"
  proof (cases u)
    case Nil
    then show ?thesis by simp
  next
    case (Cons h r)
    define x where "x = rev (takeWhile py_isspace (rev t))"
    have "rev t = takeWhile py_isspace (rev t) @ dropWhile py_isspace (rev t)" by simp
    then have "t = u @ x"
      unfolding u_def x_def by (metis rev_append rev_rev_ident)
    with Cons have "hd t = h" and "t \<noteq> []" by auto
    moreover have "\<not> py_isspace (hd t)" if "t \<noteq> []"
      using that unfolding t_def by (rule hd_dropWhile)
    ultimately show ?thesis using Cons by simp
  qed
  moreover have "dropWhile py_isspace (rev u) = rev u"
    by (simp add: u_def)
  ultimately have "py_strip u = u" by (simp add: py_strip_def)
  with u show ?thesis by simp
qed

lemma strip_decomp: "\<exists>p q. s = p @ py_strip s @ q"
proof -
  define t where "t = dropWhile py_isspace s"
  have "rev t = takeWhile py_isspace (rev t) @ dropWhile py_isspace (rev t)" by simp
  then have "t = rev (dropWhile py_isspace (rev t)) @ rev (takeWhile py_isspace (rev t))"
    by (metis rev_append rev_rev_ident)
  then have "t = py_strip s @ rev (takeWhile py_isspace (rev t))"
    by (simp add: py_strip_def t_def)
  moreover have "s = takeWhile py_isspace s @ t" by (simp add: t_def)
  ultimately show ?thesis by metis
qed

lemma py_in_strip: "py_in sub (py_strip s) \<Longrightarrow> py_in sub s"
proof -
  assume a: "py_in sub (py_strip s)"
  obtain p q where s: "s = p @ py_strip s @ q" using strip_decomp by blast
  have "py_in sub (p @ py_strip s @ q)"
    using a by (intro py_in_append_left py_in_append_right)
  with s show ?thesis by simp
qed

lemma clean_bare:
  assumes "\<not> py_in ''```'' content"
  shows "clean_response (py_strip content) = Inr (py_strip content)"
proof -
  have a: "\<not> py_in ''```'' (py_strip content)" using assms py_in_strip by blast
  have "\<not> py_in ''```json'' (py_strip content)"
    using a py_in_mono [of "''```''" "''```json''"] by auto
  with a show ?thesis by (simp add: clean_response_def strip_idem)
qed

lemma clean_fenced:
  assumes "\<not> py_in ''```'' content"
  shows "clean_response (''```json\<newline>'' @ content @ ''\<newline>```'') = Inr (py_strip content)"
proof -
  let ?N = "CHR 0x0A"
  let ?rest = "?N # content @ ?N # ''```''"
  let ?text = "''```json'' @ ?rest"
  have nl: "py_isspace ?N" by code_simp
  have strip: "py_strip ?text = ?text" by (simp add: py_strip_def py_isspace_def)
  have inF: "py_in ''```json'' ?text" by simp
  have noF_c: "\<not> py_in ''```json'' content"
    using assms py_in_mono [of "''```''" "''```json''"] by auto
  have noF_rest: "\<not> py_in ''```json'' ?rest"
    using py_in_sep_char [of ?N "''```json''" "[]" "content @ ?N # ''```''"]
          py_in_sep_char [of ?N "''```json''" content "''```''"] noF_c
    by simp
  have "split_from ''```json'' [] (''```json'' @ ?rest) = [] # split_from ''```json'' [] ?rest"
    using split_from_first [of "''```json''" "[]" "[]" ?rest] by simp
  then have split1: "py_split ?text ''```json'' = [[], ?rest]"
    using not_in_split_from [OF noF_rest, of "[]"] by (simp add: py_split_def)
  have noT: "\<not> py_in ''```'' ((?N # content @ [?N]) @ butlast ''```'')"
    using py_in_sep_char [of ?N "''```''" "[]" "content @ ?N # ''``''"]
          py_in_sep_char [of ?N "''```''" content "''``''"] assms
    by simp
  have "split_from ''```'' [] ((?N # content @ [?N]) @ ''```'' @ [])
          = (rev [] @ (?N # content @ [?N])) # split_from ''```'' [] []"
    using noT by (intro split_from_first) simp_all
  then have split2: "py_split ?rest ''```'' = [?N # content @ [?N], []]"
    by (simp add: py_split_def)
  have "py_strip (?N # content @ [?N]) = py_strip content"
    by (rule strip_pad [OF nl nl])
  then have "clean_response ?text = Inr (py_strip content)"
    unfolding clean_response_def Let_def strip
    using inF split1 split2 by (simp add: py_index_def and_then_def)
  then show ?thesis by simp
qed

text \<open>
  C7, as the code has it. When the inner content holds no run of three backquotes, the
  reply that wraps it in a \<^verbatim>\<open>```json\<close> fence and the bare trimmed content are normalized
  to the same result.
\<close>

theorem fence_is_transparent:
  assumes "\<not> py_in ''```'' content"
  shows "normalize_response ext dest (''```json\<newline>'' @ content @ ''\<newline>```'')
           = normalize_response ext dest (py_strip content)"
  using clean_fenced [OF assms] clean_bare [OF assms] by (simp add: normalize_response_def)

text \<open>
  With the content \<^verbatim>\<open>```{}\<close> the fenced reply is cut down to the empty text and fails to
  decode, while the bare content is cut down to \<^verbatim>\<open>{}\<close> and accepted.
\<close>

theorem fence_is_transparent_counterexample:
  \<open>normalize_response (demo_ext (Inr [])) ''Lisbon'' (''```json\<newline>'' @ ''```{}'' @ ''\<newline>```'')
     = Inl (ParseFailure [])
   \<and> normalize_response (demo_ext (Inr [])) ''Lisbon'' (py_strip ''```{}'')
     = Inr (JObject [(''destination'', JString ''Lisbon'')])\<close>
  by code_simp

theorem fence_is_transparent_witness:
  \<open>\<not> py_in ''```'' '' {"overview": "x"} ''
   \<and> normalize_response (demo_ext (Inr [])) ''Lisbon'' (''```json\<newline>'' @ '' {"overview": "x"} '' @ ''\<newline>```'')
       = normalize_response (demo_ext (Inr [])) ''Lisbon'' (py_strip '' {"overview": "x"} '')
   \<and> normalize_response (demo_ext (Inr [])) ''Lisbon'' (py_strip '' {"overview": "x"} '')
       = Inr (JObject [(''overview'', JString ''x''), (''destination'', JString ''Lisbon'')])\<close>
proof -
  have a: \<open>\<not> py_in ''```'' '' {"overview": "x"} ''\<close> by simp
  have b: \<open>normalize_response (demo_ext (Inr [])) ''Lisbon'' (py_strip '' {"overview": "x"} '')
       = Inr (JObject [(''overview'', JString ''x''), (''destination'', JString ''Lisbon'')])\<close>
    by code_simp
  show ?thesis
    using a b fence_is_transparent [OF a, of "demo_ext (Inr [])" "''Lisbon''"] by simp
qed

section \<open>Serializing and normalizing\<close>

lemma clean_plain:
  assumes "\<not> py_in ''```'' raw"
  shows "clean_response raw = Inr (py_strip raw)"
proof -
  have a: "\<not> py_in ''```'' (py_strip raw)" using assms py_in_strip by blast
  have "\<not> py_in ''```json'' (py_strip raw)"
    using a py_in_mono [of "''```''" "''```json''"] by auto
  with a show ?thesis by (simp add: clean_response_def)
qed

text \<open>
  C3, as the code has it. Take an itinerary, written either as the prompt asks for it or
  with its own destination, by any serializer whose text holds no run of three backquotes
  and is decoded back by \<^verbatim>\<open>json.loads\<close>. Normalizing that text gives the dictionary of the
  same itinerary with the destination of the request.
\<close>

theorem round_trip_without_fence:
  assumes "j = expected_json it \<or> j = itinerary_json it"
      and "\<not> py_in ''```'' (serialize j)"
      and "json_loads ext (py_strip (serialize j)) = Inr j"
  shows "normalize_response ext dest (serialize j)
           = Inr (itinerary_json (it\<lparr>it_destination := dest\<rparr>))"
proof -
  have c: "clean_response (serialize j) = Inr (py_strip (serialize j))"
    using assms(2) by (rule clean_plain)
  have "py_setitem j ''destination'' (JString dest)
          = Inr (itinerary_json (it\<lparr>it_destination := dest\<rparr>))"
    using assms(1) by (auto simp: expected_json_def itinerary_json_def expected_fields_def)
  then show ?thesis using c assms(3) by (simp add: normalize_response_def)
qed

text \<open>
  An overview of three backquotes is enough: the serialized text is cut at them and what is
  left does not decode.
\<close>

theorem round_trip_without_fence_counterexample:
  \<open>demo_dumps (expected_json bare)
     = ''{"overview": "```", "daily_itineraries": [], "famous_attractions": [], "local_cuisine": [], "travel_tips": [], "packing_suggestions": [], "total_estimated_cost": 0}''
   \<and> normalize_response (demo_ext (Inr [])) ''Lisbon'' (demo_dumps (expected_json bare))
     = Inl (ParseFailure ''", "daily_itineraries": [], "famous_attractions": [], "local_cuisine": [], "travel_tips": [], "packing_suggestions": [], "total_estimated_cost": 0}'')\<close>
  by code_simp

theorem round_trip_without_fence_witness:
  "(expected_json sample = expected_json sample \<or> expected_json sample = itinerary_json sample)
   \<and> \<not> py_in ''```'' (demo_dumps (expected_json sample))
   \<and> json_loads (demo_ext (Inr [])) (py_strip (demo_dumps (expected_json sample)))
       = Inr (expected_json sample)
   \<and> normalize_response (demo_ext (Inr [])) ''Porto'' (demo_dumps (expected_json sample))
       = Inr (itinerary_json (sample\<lparr>it_destination := ''Porto''\<rparr>))"
proof -
  have a: "expected_json sample = expected_json sample \<or> expected_json sample = itinerary_json sample"
    by simp
  have b: "\<not> py_in ''```'' (demo_dumps (expected_json sample))" by code_simp
  have c: "json_loads (demo_ext (Inr [])) (py_strip (demo_dumps (expected_json sample)))
       = Inr (expected_json sample)" by code_simp
  show ?thesis
    using a b c round_trip_without_fence
      [where j = "expected_json sample" and it = sample and serialize = demo_dumps
         and ext = "demo_ext (Inr [])" and dest = "''Porto''"]
    by simp
qed

section \<open>The text export\<close>

lemma after_first_decomp: "after_first t s = Some r \<Longrightarrow> \<exists>p. s = p @ t @ r"
proof (induction s)
  case Nil
  then show ?case by (simp split: if_splits)
next
  case (Cons c cs)
  show ?case
  proof (cases "prefix t (c # cs)")
    case True
    then have "c # cs = t @ drop (length t) (c # cs)"
      by (metis append_eq_conv_conj prefix_def)
    with True Cons.prems show ?thesis by (auto intro: exI [of _ "[]"])
  next
    case False
    with Cons obtain p where "cs = p @ t @ r" by auto
    then have "c # cs = (c # p) @ t @ r" by simp
    then show ?thesis by blast
  qed
qed

lemma after_first_leftmost: "\<exists>r'. after_first t (p @ t @ r) = Some r' \<and> suffix r r'"
proof (induction p)
  case Nil
  show ?case
  proof (cases "t @ r")
    case Nil
    then show ?thesis by simp
  next
    case (Cons a list)
    have "prefix t (t @ r)" by simp
    with Cons have p: "prefix t (a # list)" by simp
    have "drop (length t) (t @ r) = r" by simp
    with Cons have "drop (length t) (a # list) = r" by simp
    with p Cons show ?thesis by simp
  qed
next
  case (Cons a p)
  show ?case
  proof (cases "prefix t (a # p @ t @ r)")
    case True
    have "drop (length t) (((a # p) @ t) @ r) = drop (length t) ((a # p) @ t) @ r"
      by (simp only: drop_append) simp
    then have "suffix r (drop (length t) (a # p @ t @ r))"
      by (simp add: suffix_def)
    with True show ?thesis by simp
  next
    case False
    with Cons show ?thesis by simp
  qed
qed

lemma in_order_suffix: "in_order ts r \<Longrightarrow> suffix r r' \<Longrightarrow> in_order ts r'"
proof (induction ts arbitrary: r r')
  case Nil
  then show ?case by simp
next
  case (Cons t ts)
  from Cons.prems(1) obtain q where q: "after_first t r = Some q" "in_order ts q"
    by (auto split: option.splits)
  from q(1) obtain p where "r = p @ t @ q" using after_first_decomp by blast
  moreover from Cons.prems(2) obtain x where "r' = x @ r" by (auto simp: suffix_def)
  ultimately have "r' = (x @ p) @ t @ q" by simp
  then obtain q' where q': "after_first t r' = Some q'" "suffix q q'"
    using after_first_leftmost [of t "x @ p" q] by auto
  from Cons.IH [OF q(2) q'(2)] q'(1) show ?case by simp
qed

lemma in_order_cons: "in_order ts r \<Longrightarrow> in_order (t # ts) (p @ t @ r)"
proof -
  assume a: "in_order ts r"
  obtain q where q: "after_first t (p @ t @ r) = Some q" "suffix r q"
    using after_first_leftmost by blast
  from in_order_suffix [OF a q(2)] q(1) show ?thesis by simp
qed

lemma in_order_append: "in_order xs a \<Longrightarrow> in_order ys b \<Longrightarrow> in_order (xs @ ys) (a @ b)"
proof (induction xs arbitrary: a)
  case Nil
  then show ?case using in_order_suffix [of ys b "a @ b"] by (simp add: suffix_def)
next
  case (Cons t xs)
  from Cons.prems(1) obtain q where q: "after_first t a = Some q" "in_order xs q"
    by (auto split: option.splits)
  from q(1) obtain p where a: "a = p @ t @ q" using after_first_decomp by blast
  have "in_order (xs @ ys) (q @ b)" using Cons.IH [OF q(2) Cons.prems(2)] .
  then have "in_order (t # xs @ ys) (p @ t @ (q @ b))" by (rule in_order_cons)
  with a show ?case by simp
qed

lemma activities_text:
  "\<exists>l. (\<forall>t. append_each (activity_lines ext) (map activity_json as) t = Inr (t @ l))
       \<and> in_order (map act_name as) l"
proof (induction as)
  case Nil
  show ?case by (intro exI [of _ "[]"]) simp
next
  case (Cons a as)
  then obtain l where l: "\<And>t. append_each (activity_lines ext) (map activity_json as) t = Inr (t @ l)"
    and o: "in_order (map act_name as) l" by blast
  define before where "before = ''  '' @ act_time a @ '' - ''"
  define after where "after = ''\<newline>'' @ ''    '' @ act_description a @ ''\<newline>''"
  have line: "activity_lines ext (activity_json a) = Inr (before @ act_name a @ after)"
    by (simp add: activity_lines_def activity_json_def and_then_def before_def after_def)
  have "in_order (map act_name as) (after @ l)"
    using o by (rule in_order_suffix) (simp add: suffix_def)
  then have "in_order (act_name a # map act_name as) (before @ act_name a @ (after @ l))"
    by (rule in_order_cons)
  moreover have "\<And>t. append_each (activity_lines ext) (map activity_json (a # as)) t
                    = Inr (t @ (before @ act_name a @ after @ l))"
    using line l by (simp add: and_then_def)
  ultimately show ?case by (intro exI [of _ "before @ act_name a @ after @ l"]) simp
qed

lemma day_text:
  "\<exists>l. day_lines ext (day_json d) = Inr l \<and> in_order (title d # map act_name (activities d)) l"
proof -
  obtain l where l: "\<And>t. append_each (activity_lines ext) (map activity_json (activities d)) t = Inr (t @ l)"
    and o: "in_order (map act_name (activities d)) l"
    using activities_text by blast
  define before where "before = ''\<newline>DAY '' @ py_str ext (JInt (day d)) @ '': ''"
  define after where
    "after = ''\<newline>'' @ ''Budget: $'' @ py_str ext (number_json (estimated_cost d)) @ ''\<newline>\<newline>''"
  have "day_lines ext (day_json d) = Inr ((before @ title d @ after) @ l @ ''\<newline>'')"
    using l [of "before @ title d @ after"]
    by (simp add: day_lines_def day_json_def and_then_def before_def after_def)
  moreover have "in_order (map act_name (activities d)) (after @ l @ ''\<newline>'')"
  proof -
    have "in_order (map act_name (activities d) @ []) (l @ ''\<newline>'')"
      using o by (intro in_order_append) simp_all
    then have "in_order (map act_name (activities d)) (l @ ''\<newline>'')" by simp
    then show ?thesis by (rule in_order_suffix) (simp add: suffix_def)
  qed
  then have "in_order (title d # map act_name (activities d)) (before @ title d @ (after @ l @ ''\<newline>''))"
    by (rule in_order_cons)
  ultimately show ?thesis by simp
qed

lemma days_text:
  "\<exists>l. (\<forall>t. append_each (day_lines ext) (map day_json ds) t = Inr (t @ l))
       \<and> in_order (concat (map (\<lambda>d. title d # map act_name (activities d)) ds)) l"
proof (induction ds)
  case Nil
  show ?case by (intro exI [of _ "[]"]) simp
next
  case (Cons d ds)
  then obtain l where l: "\<And>t. append_each (day_lines ext) (map day_json ds) t = Inr (t @ l)"
    and o: "in_order (concat (map (\<lambda>d. title d # map act_name (activities d)) ds)) l" by blast
  obtain k where k: "day_lines ext (day_json d) = Inr k"
    and ok: "in_order (title d # map act_name (activities d)) k"
    using day_text by blast
  have "in_order ((title d # map act_name (activities d))
                  @ concat (map (\<lambda>d. title d # map act_name (activities d)) ds)) (k @ l)"
    using ok o by (rule in_order_append)
  moreover have "\<And>t. append_each (day_lines ext) (map day_json (d # ds)) t = Inr (t @ (k @ l))"
    using k l by (simp add: and_then_def)
  ultimately show ?case by (intro exI [of _ "k @ l"]) simp
qed

lemma day_lines_ignores_meals:
  "day_lines ext (day_json (d\<lparr>meals := ms\<rparr>)) = day_lines ext (day_json d)"
  by (simp add: day_lines_def day_json_def)

lemma append_each_cong:
  "(\<And>x. x \<in> set xs \<Longrightarrow> line (h x) = line (k x))
   \<Longrightarrow> append_each line (map h xs) t = append_each line (map k xs) t"
  by (induction xs arbitrary: t) (simp_all add: and_then_def)

lemma to_text_ignores_meals:
  "to_text ext (itinerary_json (it\<lparr>daily_itineraries := map (\<lambda>d. d\<lparr>meals := ms d\<rparr>) (daily_itineraries it)\<rparr>))
     = to_text ext (itinerary_json it)"
proof -
  have "\<And>t. append_each (day_lines ext)
               (map day_json (map (\<lambda>d. d\<lparr>meals := ms d\<rparr>) (daily_itineraries it))) t
            = append_each (day_lines ext) (map day_json (daily_itineraries it)) t"
    unfolding map_map o_def by (rule append_each_cong) (simp add: day_lines_ignores_meals)
  then show ?thesis
    by (simp add: to_text_def itinerary_json_def expected_fields_def and_then_def)
qed

text \<open>
  C8. The text export of an itinerary is produced without an exception; every day's title
  and every activity's name occur in it, day after day and activity after activity; and
  the text is the same whatever the meals of the days are, so no line of it comes from a
  meal.
\<close>

theorem text_export_days_and_activities:
  "\<exists>txt. to_text ext (itinerary_json it) = Inr txt
         \<and> in_order (export_names it) txt
         \<and> to_text ext (itinerary_json
              (it\<lparr>daily_itineraries := map (\<lambda>d. d\<lparr>meals := ms d\<rparr>) (daily_itineraries it)\<rparr>))
             = Inr txt"
proof -
  obtain l where l: "\<And>t. append_each (day_lines ext) (map day_json (daily_itineraries it)) t = Inr (t @ l)"
    and o: "in_order (export_names it) l"
    using days_text [of ext "daily_itineraries it"] by (auto simp: export_names_def)
  define header where
    "header = ''AI-GENERATED ITINERARY: '' @ it_destination it @ ''\<newline>''
          @ replicate 60 CHR ''='' @ ''\<newline>\<newline>''
          @ ''OVERVIEW:\<newline>'' @ overview it @ ''\<newline>\<newline>''
          @ ''TOTAL COST: $'' @ py_str ext (number_json (total_estimated_cost it)) @ ''\<newline>\<newline>''"
  have t: "to_text ext (itinerary_json it) = Inr (header @ l)"
    using l [of header]
    by (simp add: to_text_def itinerary_json_def expected_fields_def and_then_def header_def)
  have "in_order (export_names it) (header @ l)"
    using o by (rule in_order_suffix) (simp add: suffix_def)
  with t to_text_ignores_meals [of ext ms it] show ?thesis by simp
qed

theorem text_export_days_and_activities_witness:
  "to_text (demo_ext (Inr [])) (itinerary_json sample)
     = Inr ''AI-GENERATED ITINERARY: Lisbon\<newline>============================================================\<newline>\<newline>OVERVIEW:\<newline>Hills and tiles\<newline>\<newline>TOTAL COST: $1500\<newline>\<newline>\<newline>DAY 1: Alfama\<newline>Budget: $15\<newline>\<newline>  9:00 AM - Tram 28\<newline>    Ride the tram\<newline>\<newline>''
   \<and> in_order [''Alfama'', ''Tram 28'']
        ''AI-GENERATED ITINERARY: Lisbon\<newline>============================================================\<newline>\<newline>OVERVIEW:\<newline>Hills and tiles\<newline>\<newline>TOTAL COST: $1500\<newline>\<newline>\<newline>DAY 1: Alfama\<newline>Budget: $15\<newline>\<newline>  9:00 AM - Tram 28\<newline>    Ride the tram\<newline>\<newline>''
   \<and> to_text (demo_ext (Inr []))
        (itinerary_json (sample\<lparr>daily_itineraries :=
           map (\<lambda>d. d\<lparr>meals := []\<rparr>) (daily_itineraries sample)\<rparr>))
       = to_text (demo_ext (Inr [])) (itinerary_json sample)"
proof -
  have e: "to_text (demo_ext (Inr [])) (itinerary_json sample)
     = Inr ''AI-GENERATED ITINERARY: Lisbon\<newline>============================================================\<newline>\<newline>OVERVIEW:\<newline>Hills and tiles\<newline>\<newline>TOTAL COST: $1500\<newline>\<newline>\<newline>DAY 1: Alfama\<newline>Budget: $15\<newline>\<newline>  9:00 AM - Tram 28\<newline>    Ride the tram\<newline>\<newline>''"
    by code_simp
  have n: "export_names sample = [''Alfama'', ''Tram 28'']"
    by (simp add: export_names_def sample_def)
  from text_export_days_and_activities [of "demo_ext (Inr [])" sample "\<lambda>d. []"]
  obtain body where "to_text (demo_ext (Inr [])) (itinerary_json sample) = Inr body"
    and "in_order (export_names sample) body"
    and "to_text (demo_ext (Inr []))
        (itinerary_json (sample\<lparr>daily_itineraries :=
           map (\<lambda>d. d\<lparr>meals := []\<rparr>) (daily_itineraries sample)\<rparr>)) = Inr body"
    by blast
  with e n show ?thesis by simp
qed

section \<open>Rendering step by step\<close>

lemma snd_then_show: "snd (then_show r r') = (case snd r of None \<Rightarrow> snd r' | Some e \<Rightarrow> Some e)"
  by (cases r; cases "snd r") auto

lemma fst_then_show: "fst (then_show r r') = fst r @ (case snd r of None \<Rightarrow> fst r' | Some e \<Rightarrow> [])"
  by (cases r; cases "snd r") auto

lemma show_all_ok: "(\<And>r. r \<in> set rs \<Longrightarrow> snd r = None) \<Longrightarrow> snd (show_all rs) = None"
  by (induction rs) (simp_all add: snd_then_show)

lemma show_all_avoids:
  "(\<And>r. r \<in> set rs \<Longrightarrow> snd r \<noteq> Some e) \<Longrightarrow> snd (show_all rs) \<noteq> Some e"
  by (induction rs) (auto simp: snd_then_show split: option.splits)

lemma show_all_nil_avoids: "snd (show_all []) \<noteq> Some e"
  by simp

lemma show_all_cons_avoids:
  "snd r \<noteq> Some e \<Longrightarrow> snd (show_all rs) \<noteq> Some e \<Longrightarrow> snd (show_all (r # rs)) \<noteq> Some e"
  by (auto simp: snd_then_show split: option.splits)

lemma for_each_ok: "(\<And>x. x \<in> set xs \<Longrightarrow> snd (body x) = None) \<Longrightarrow> snd (for_each body xs) = None"
  unfolding for_each_def by (rule show_all_ok) auto

lemma for_each_avoids:
  "(\<And>x. snd (body x) \<noteq> Some e) \<Longrightarrow> snd (for_each body xs) \<noteq> Some e"
  unfolding for_each_def by (rule show_all_avoids) auto

lemma with_value_avoids:
  "m \<noteq> Inl e \<Longrightarrow> (\<And>x. snd (k x) \<noteq> Some e) \<Longrightarrow> snd (with_value m k) \<noteq> Some e"
  by (cases m) (auto simp: with_value_def)

lemma and_then_avoids:
  "m \<noteq> Inl e \<Longrightarrow> (\<And>x. f x \<noteq> Inl e) \<Longrightarrow> and_then m f \<noteq> Inl e"
  by (cases m) (auto simp: and_then_def)

lemma append_each_avoids:
  "(\<And>x. line x \<noteq> Inl e) \<Longrightarrow> append_each line xs t \<noteq> Inl e"
  by (induction xs arbitrary: t) (simp_all add: and_then_avoids)

lemma getitem_no_zero: "py_getitem d k \<noteq> Inl ZeroDivisionError"
  by (cases d) (auto split: option.splits)

lemma get_no_zero: "py_get d k v \<noteq> Inl ZeroDivisionError"
  by (cases d) (auto split: option.splits)

lemma iter_no_zero: "py_iter d \<noteq> Inl ZeroDivisionError"
  by (cases d) auto

lemma len_no_zero: "py_len d \<noteq> Inl ZeroDivisionError"
  by (cases d) auto

lemma number_no_zero: "py_number d \<noteq> Inl ZeroDivisionError"
  by (cases d) auto

lemma title_no_zero: "py_title_arg d \<noteq> Inl ZeroDivisionError"
  by (cases d) auto

lemma columns_no_zero: "st_columns n \<noteq> Inl ZeroDivisionError"
  by (simp add: st_columns_def)

lemma truediv_no_zero: "n \<noteq> 0 \<Longrightarrow> py_truediv d n \<noteq> Inl ZeroDivisionError"
  by (cases d) auto

lemma truediv_number: "n \<noteq> 0 \<Longrightarrow> py_number d = Inr q \<Longrightarrow> py_truediv d n = Inr (q / of_int n)"
  by (cases d) auto

lemmas no_zero =
  getitem_no_zero get_no_zero iter_no_zero len_no_zero number_no_zero title_no_zero
  columns_no_zero

lemma show_node_avoids: "snd (show_node n) \<noteq> Some e"
  by (simp add: show_node_def)

lemma activity_no_zero: "snd (render_activity act) \<noteq> Some ZeroDivisionError"
  unfolding render_activity_def
  by (intro with_value_avoids and_then_avoids show_node_avoids no_zero)

lemma meal_no_zero: "snd (render_meal im) \<noteq> Some ZeroDivisionError"
  unfolding render_meal_def
  by (intro with_value_avoids and_then_avoids show_node_avoids no_zero)

lemma day_no_zero: "snd (render_day d) \<noteq> Some ZeroDivisionError"
  unfolding render_day_def
  by (intro show_all_cons_avoids show_all_nil_avoids with_value_avoids and_then_avoids
            show_node_avoids for_each_avoids activity_no_zero meal_no_zero no_zero)

lemma list_no_zero: "snd (render_list l data k) \<noteq> Some ZeroDivisionError"
  unfolding render_list_def
  by (intro with_value_avoids and_then_avoids show_node_avoids for_each_avoids no_zero)

lemma activity_lines_no_zero: "activity_lines ext act \<noteq> Inl ZeroDivisionError"
  unfolding activity_lines_def by (intro and_then_avoids no_zero) simp

lemma day_lines_no_zero: "day_lines ext d \<noteq> Inl ZeroDivisionError"
  unfolding day_lines_def
  by (intro and_then_avoids append_each_avoids activity_lines_no_zero no_zero) simp

lemma to_text_no_zero: "to_text ext data \<noteq> Inl ZeroDivisionError"
  unfolding to_text_def
  by (intro and_then_avoids append_each_avoids day_lines_no_zero no_zero)

section \<open>The per-person figure\<close>

text \<open>
  C6, as the code has it. The division of line 299 has no guard. For every number of
  people other than zero, so for every value the form allows, rendering never raises
  \<^verbatim>\<open>ZeroDivisionError\<close> and the per-person figure of a total that is a number is the total
  divided by the number of people.
\<close>

theorem per_person_needs_people:
  assumes "num_people f \<noteq> 0"
  shows "snd (render_results ext f data) \<noteq> Some ZeroDivisionError
         \<and> (\<forall>total q. py_number total = Inr q \<longrightarrow>
               py_truediv total (num_people f) = Inr (q / of_int (num_people f)))"
proof -
  have "snd (render_results ext f data) \<noteq> Some ZeroDivisionError"
    unfolding render_results_def
    by (intro show_all_cons_avoids show_all_nil_avoids with_value_avoids and_then_avoids
              show_node_avoids for_each_avoids day_no_zero list_no_zero to_text_no_zero
              no_zero truediv_no_zero [OF assms])
  then show ?thesis using assms by (simp add: truediv_number)
qed

text \<open>With no people, rendering stops at the division, after the total.\<close>

theorem per_person_needs_people_counterexample:
  "render_results (demo_ext (Inr [])) (lisbon\<lparr>num_people := 0\<rparr>) (itinerary_json sample)
     = ([Title (JString ''Lisbon''), Overview (JString ''Hills and tiles''),
         Metric TotalCost 1500], Some ZeroDivisionError)"
  by code_simp

theorem per_person_needs_people_witness:
  "num_people lisbon \<noteq> 0
   \<and> snd (render_results (demo_ext (Inr [])) lisbon (itinerary_json sample)) = None
   \<and> py_truediv (JInt 1500) (num_people lisbon) = Inr 750"
proof -
  have a: "num_people lisbon \<noteq> 0" by (simp add: lisbon_def)
  have b: "snd (render_results (demo_ext (Inr [])) lisbon (itinerary_json sample)) = None"
    by code_simp
  have c: "py_number (JInt 1500) = Inr 1500" by simp
  have d: "num_people lisbon = 2" by (simp add: lisbon_def)
  from per_person_needs_people [OF a, of "demo_ext (Inr [])" "itinerary_json sample"] c
  have "py_truediv (JInt 1500) (num_people lisbon) = Inr (1500 / of_int (num_people lisbon))"
    by blast
  with a b d show ?thesis by simp
qed

section \<open>Days without meals\<close>

lemma render_activities_ok: "snd (for_each render_activity (map activity_json as)) = None"
  by (rule for_each_ok)
     (auto simp: render_activity_def activity_json_def with_value_def show_node_def)

lemma render_meals_ok: "snd (for_each render_meal (py_enumerate n (map meal_json ms))) = None"
proof (rule for_each_ok)
  fix im assume "im \<in> set (py_enumerate n (map meal_json ms))"
  then have "(fst im, snd im) \<in> set (zip [n ..< n + length (map meal_json ms)] (map meal_json ms))"
    unfolding py_enumerate_def by simp
  then have "snd im \<in> set (map meal_json ms)"
    by (rule set_zip_rightD)
  then obtain m where "snd im = meal_json m" by auto
  then show "snd (render_meal im) = None"
    by (simp add: render_meal_def meal_json_def with_value_def and_then_def show_node_def)
qed

lemma number_json_number: "\<exists>q. py_number (number_json n) = Inr q"
  by (cases n) auto

lemma render_day_snd:
  "snd (render_day (day_json d)) = (if meals d = [] then Some StreamlitAPIException else None)"
proof -
  obtain q where q: "py_number (number_json (estimated_cost d)) = Inr q"
    using number_json_number by blast
  show ?thesis
    using q render_activities_ok [of "activities d"] render_meals_ok [of 0 "meals d"]
    by (simp add: render_day_def day_json_def with_value_def and_then_def show_node_def
                  st_columns_def snd_then_show)
qed

lemma render_days_snd:
  "snd (for_each render_day (map day_json ds))
     = (if \<exists>d\<in>set ds. meals d = [] then Some StreamlitAPIException else None)"
  by (induction ds) (auto simp: for_each_def snd_then_show render_day_snd)

text \<open>
  C5, as the code has it. For every itinerary with a day whose list of meals is empty,
  shown to a form with at least one person, rendering stops with the exception that
  \<^verbatim>\<open>st.columns(0)\<close> raises; what follows that day's activities is not shown.
\<close>

theorem empty_meals_stop_rendering:
  assumes "num_people f \<noteq> 0" and "\<exists>d\<in>set (daily_itineraries it). meals d = []"
  shows "snd (render_results ext f (itinerary_json it)) = Some StreamlitAPIException"
proof -
  obtain q where q: "py_number (number_json (total_estimated_cost it)) = Inr q"
    using number_json_number by blast
  have d: "py_truediv (number_json (total_estimated_cost it)) (num_people f)
             = Inr (q / of_int (num_people f))"
    using assms(1) q by (rule truediv_number)
  show ?thesis
    using q d assms(2) render_days_snd [of "daily_itineraries it"]
    by (simp add: render_results_def itinerary_json_def expected_fields_def with_value_def
                  and_then_def show_node_def snd_then_show)
qed

theorem empty_meals_stop_rendering_witness:
  "num_people lisbon \<noteq> 0
   \<and> (\<exists>d\<in>set (daily_itineraries no_meals). meals d = [])
   \<and> render_results (demo_ext (Inr [])) lisbon (itinerary_json no_meals)
       = ([Title (JString ''Lisbon''), Overview (JString ''Hills and tiles''),
           Metric TotalCost 1500, Metric PerPerson 750, DurationMetric 3,
           ActivitiesMetric 1, DayHeading (JInt 1) (JString ''Alfama''), DayBudget 15,
           ActivityItem (JString ''9:00 AM'') (JString ''Tram 28'')
             (JString ''Ride the tram'') (JString ''2 hours'') (JInt 3)],
          Some StreamlitAPIException)"
proof -
  have a: "num_people lisbon \<noteq> 0" by (simp add: lisbon_def)
  have b: "\<exists>d\<in>set (daily_itineraries no_meals). meals d = []"
    by (simp add: no_meals_def sample_def)
  have c: "fst (render_results (demo_ext (Inr [])) lisbon (itinerary_json no_meals))
       = [Title (JString ''Lisbon''), Overview (JString ''Hills and tiles''),
           Metric TotalCost 1500, Metric PerPerson 750, DurationMetric 3,
           ActivitiesMetric 1, DayHeading (JInt 1) (JString ''Alfama''), DayBudget 15,
           ActivityItem (JString ''9:00 AM'') (JString ''Tram 28'')
             (JString ''Ride the tram'') (JString ''2 hours'') (JInt 3)]"
    by code_simp
  from empty_meals_stop_rendering [OF a b, of "demo_ext (Inr [])"] c a b
  show ?thesis by (simp add: prod_eq_iff)
qed

section \<open>Whose people the per-person figure divides by\<close>

lemma display_shows:
  "itinerary s = Some data
   \<Longrightarrow> fst (snd (display ext inp c s)) = fst (render_results ext (form inp) data)"
  by (auto simp: display_def split: prod.splits option.splits)

text \<open>
  C4, as the code has it. The session stores the itinerary and no request. When the stored
  itinerary has a destination, an overview and a total that is a number, the page of a run
  starts with the title, the overview, the total and the per-person figure, and that figure
  is the total divided by the number of people in the form of that run.
\<close>

theorem per_person_uses_current_form:
  assumes "itinerary s = Some data"
      and "py_getitem data ''destination'' = Inr d"
      and "py_getitem data ''overview'' = Inr v"
      and "py_getitem data ''total_estimated_cost'' = Inr tot"
      and "py_number tot = Inr q"
      and "num_people (form inp) \<noteq> 0"
  shows "take 4 (fst (snd (display ext inp c s)))
           = [Title d, Overview v, Metric TotalCost q,
              Metric PerPerson (q / of_int (num_people (form inp)))]"
proof -
  have t: "py_truediv tot (num_people (form inp)) = Inr (q / of_int (num_people (form inp)))"
    using assms(6,5) by (rule truediv_number)
  have "take 4 (fst (render_results ext (form inp) data))
           = [Title d, Overview v, Metric TotalCost q,
              Metric PerPerson (q / of_int (num_people (form inp)))]"
    using assms(2-5) t
    by (simp add: render_results_def with_value_def show_node_def fst_then_show snd_then_show)
  with display_shows [OF assms(1)] show ?thesis by simp
qed

text \<open>
  An itinerary generated for two people and shown again after the form was set to four
  people: the figure is 1500 / 4, not 1500 / 2.
\<close>

theorem per_person_uses_current_form_counterexample:
  "final (run (demo_ext (Inr (demo_dumps (expected_json sample))))
              (idle\<lparr>generate_clicked := True\<rparr>) keyed) = stored
   \<and> num_people (form (idle\<lparr>generate_clicked := True\<rparr>)) = 2
   \<and> Metric PerPerson 375 \<in> set (shown (run (demo_ext (Inr [])) later stored))
   \<and> Metric PerPerson 750 \<notin> set (shown (run (demo_ext (Inr [])) later stored))"
proof -
  have a: "final (run (demo_ext (Inr (demo_dumps (expected_json sample))))
              (idle\<lparr>generate_clicked := True\<rparr>) keyed) = stored"
    by code_simp
  have b: "num_people (form (idle\<lparr>generate_clicked := True\<rparr>)) = 2"
    by (simp add: idle_def lisbon_def)
  have c: "fst (render_results (demo_ext (Inr [])) (form later) (itinerary_json sample))
       = [Title (JString ''Lisbon''), Overview (JString ''Hills and tiles''),
          Metric TotalCost 1500, Metric PerPerson 375, DurationMetric 3,
          ActivitiesMetric 1, DayHeading (JInt 1) (JString ''Alfama''), DayBudget 15,
          ActivityItem (JString ''9:00 AM'') (JString ''Tram 28'')
            (JString ''Ride the tram'') (JString ''2 hours'') (JInt 3),
          DiningColumns 1,
          MealCard 0 ''lunch'' (JString ''Tasca'') (JString ''Portuguese'') (JInt 12),
          DayTip (JString ''Wear good shoes''),
          ListEntry Attractions 1 (JString ''Belem Tower''),
          ListEntry Cuisine 1 (JString ''Bacalhau''),
          ListEntry Tips 1 (JString ''Carry cash''),
          ListEntry Packing 1 (JString ''Sunscreen''),
          DownloadJson (demo_dumps (itinerary_json sample)) ''ai_itinerary_Lisbon.json'',
          DownloadTxt
            ''AI-GENERATED ITINERARY: Lisbon\<newline>============================================================\<newline>\<newline>OVERVIEW:\<newline>Hills and tiles\<newline>\<newline>TOTAL COST: $1500\<newline>\<newline>\<newline>DAY 1: Alfama\<newline>Budget: $15\<newline>\<newline>  9:00 AM - Tram 28\<newline>    Ride the tram\<newline>\<newline>''
            ''ai_itinerary_Lisbon.txt'',
          NewButton]"
    by code_simp
  have d: "shown (run (demo_ext (Inr [])) later stored)
       = [ApiKeyPanel False, GenerateButton False]
         @ fst (render_results (demo_ext (Inr [])) (form later) (itinerary_json sample))"
    by (simp add: run_def Let_def save_key_def later_def idle_def stored_def keyed_def
                  setup_gemini_api_def resolve_key_def demo_ext_def display_def
             split: prod.splits option.splits)
  show ?thesis unfolding d c using a b by simp
qed

theorem per_person_uses_current_form_witness:
  "itinerary stored = Some (itinerary_json sample)
   \<and> py_getitem (itinerary_json sample) ''total_estimated_cost'' = Inr (JInt 1500)
   \<and> num_people (form later) \<noteq> 0
   \<and> take 4 (fst (snd (display (demo_ext (Inr [])) later True stored)))
       = [Title (JString ''Lisbon''), Overview (JString ''Hills and tiles''),
          Metric TotalCost 1500, Metric PerPerson 375]"
proof -
  have a: "itinerary stored = Some (itinerary_json sample)" by (simp add: stored_def)
  have b: "py_getitem (itinerary_json sample) ''destination'' = Inr (JString ''Lisbon'')"
    by code_simp
  have c: "py_getitem (itinerary_json sample) ''overview'' = Inr (JString ''Hills and tiles'')"
    by code_simp
  have d: "py_getitem (itinerary_json sample) ''total_estimated_cost'' = Inr (JInt 1500)"
    by code_simp
  have e: "py_number (JInt 1500) = Inr 1500" by simp
  have f: "num_people (form later) \<noteq> 0" by (simp add: later_def)
  have g: "num_people (form later) = 4" by (simp add: later_def)
  from per_person_uses_current_form [OF a b c d e f, of "demo_ext (Inr [])" True] a d f g
  show ?thesis by simp
qed

end
